theory Spec2Isabelle
  imports Complex_Main "HOL-Library.Sublist"
begin

section \<open>Errors and random draws\<close>

text \<open>
  The exceptions of the Python source that the model can raise.  \<open>OSError\<close> stands for an
  input/output failure inside \<^verbatim>\<open>save_lora_weights\<close> or \<^verbatim>\<open>save_videos_grid\<close>.
\<close>

datatype error =
    AssertionError
  | ZeroDivisionError
  | IndexError
  | NameError
  | UnboundLocalError
  | AttributeError
  | RuntimeError
  | EinopsError
  | OSError

text \<open>
  \<^verbatim>\<open>torch.randint(low, high, (1,)).item()\<close>: the generator's raw output is reduced modulo
  the width of the range; an empty range raises.
\<close>

definition randint :: "nat \<Rightarrow> nat \<Rightarrow> nat \<Rightarrow> error + nat" where
  "randint low high raw =
     (if low < high then Inr (low + raw mod (high - low)) else Inl RuntimeError)"

section \<open>Tensors\<close>

text \<open>
  A tensor is its shape and its elements.  Elements are real numbers: rounding, infinities
  and NaN of the floating-point types are outside the model.
\<close>

record tensor4 =
  dims4 :: "nat \<times> nat \<times> nat \<times> nat"
  at4 :: "nat \<Rightarrow> nat \<Rightarrow> nat \<Rightarrow> nat \<Rightarrow> real"

record tensor5 =
  dims5 :: "nat \<times> nat \<times> nat \<times> nat \<times> nat"
  at5 :: "nat \<Rightarrow> nat \<Rightarrow> nat \<Rightarrow> nat \<Rightarrow> nat \<Rightarrow> real"

text \<open>\<^verbatim>\<open>t.shape[i]\<close> of a five-dimensional tensor.\<close>

fun shape0 :: "tensor5 \<Rightarrow> nat" where
  "shape0 t = (case dims5 t of (b, c, f, h, w) \<Rightarrow> b)"

fun shape1 :: "tensor5 \<Rightarrow> nat" where
  "shape1 t = (case dims5 t of (b, c, f, h, w) \<Rightarrow> c)"

fun shape2 :: "tensor5 \<Rightarrow> nat" where
  "shape2 t = (case dims5 t of (b, c, f, h, w) \<Rightarrow> f)"

definition numel5 :: "tensor5 \<Rightarrow> nat" where
  "numel5 t = (case dims5 t of (b, c, f, h, w) \<Rightarrow> b * c * f * h * w)"

text \<open>\<^verbatim>\<open>images * 2.0 - 1.0\<close>\<close>

definition normalize :: "tensor4 \<Rightarrow> tensor4" where
  "normalize t = t\<lparr>at4 := (\<lambda>i j k l. at4 t i j k l * 2 - 1)\<rparr>"

text \<open>\<^verbatim>\<open>t.permute(0, 3, 1, 2)\<close>: dimension \<open>i\<close> of the result is dimension \<open>[0, 3, 1, 2] ! i\<close> of \<open>t\<close>.\<close>

definition permute_0312 :: "tensor4 \<Rightarrow> tensor4" where
  "permute_0312 t =
     (case dims4 t of (d0, d1, d2, d3) \<Rightarrow>
        \<lparr>dims4 = (d0, d3, d1, d2), at4 = (\<lambda>i j k l. at4 t i k l j)\<rparr>)"

text \<open>\<^verbatim>\<open>t.unsqueeze(0)\<close>, \<^verbatim>\<open>t.unsqueeze(1)\<close> and \<^verbatim>\<open>t.unsqueeze(2)\<close> of a four-dimensional tensor.\<close>

definition unsqueeze0 :: "tensor4 \<Rightarrow> tensor5" where
  "unsqueeze0 t =
     (case dims4 t of (d0, d1, d2, d3) \<Rightarrow>
        \<lparr>dims5 = (1, d0, d1, d2, d3), at5 = (\<lambda>n i j k l. at4 t i j k l)\<rparr>)"

definition unsqueeze1 :: "tensor4 \<Rightarrow> tensor5" where
  "unsqueeze1 t =
     (case dims4 t of (d0, d1, d2, d3) \<Rightarrow>
        \<lparr>dims5 = (d0, 1, d1, d2, d3), at5 = (\<lambda>i n j k l. at4 t i j k l)\<rparr>)"

definition unsqueeze2 :: "tensor4 \<Rightarrow> tensor5" where
  "unsqueeze2 t =
     (case dims4 t of (d0, d1, d2, d3) \<Rightarrow>
        \<lparr>dims5 = (d0, d1, 1, d2, d3), at5 = (\<lambda>i j n k l. at4 t i j k l)\<rparr>)"

text \<open>
  \<^verbatim>\<open>t[:, idx, :, :, :]\<close> and \<^verbatim>\<open>t[:, :, idx, :, :]\<close> with a non-negative index: an index
  beyond the dimension raises.
\<close>

definition select1 :: "tensor5 \<Rightarrow> nat \<Rightarrow> error + tensor4" where
  "select1 t idx =
     (case dims5 t of (d0, d1, d2, d3, d4) \<Rightarrow>
        if idx < d1
        then Inr \<lparr>dims4 = (d0, d2, d3, d4), at4 = (\<lambda>i j k l. at5 t i idx j k l)\<rparr>
        else Inl IndexError)"

definition select2 :: "tensor5 \<Rightarrow> nat \<Rightarrow> error + tensor4" where
  "select2 t idx =
     (case dims5 t of (d0, d1, d2, d3, d4) \<Rightarrow>
        if idx < d2
        then Inr \<lparr>dims4 = (d0, d1, d3, d4), at4 = (\<lambda>i j k l. at5 t i j idx k l)\<rparr>
        else Inl IndexError)"

text \<open>\<^verbatim>\<open>torchvision.transforms.functional.hflip\<close>: the last dimension is reversed.\<close>

definition hflip :: "tensor4 \<Rightarrow> tensor4" where
  "hflip t =
     (case dims4 t of (d0, d1, d2, d3) \<Rightarrow>
        t\<lparr>at4 := (\<lambda>i j k l. at4 t i j k (d3 - 1 - l))\<rparr>)"

text \<open>
  \<^verbatim>\<open>F.mse_loss(a, b, reduction="mean")\<close> for two tensors of the shape of \<open>a\<close>: the mean of
  the squared differences.  (On a tensor without elements torch returns NaN, which a real
  number cannot express; the division gives 0 there.)
\<close>

definition mse_loss5 :: "tensor5 \<Rightarrow> tensor5 \<Rightarrow> real" where
  "mse_loss5 a b =
     (case dims5 a of (d0, d1, d2, d3, d4) \<Rightarrow>
        (\<Sum>i<d0. \<Sum>j<d1. \<Sum>k<d2. \<Sum>l<d3. \<Sum>m<d4. (at5 a i j k l m - at5 b i j k l m)\<^sup>2)
          / real (d0 * d1 * d2 * d3 * d4))"

definition mse_loss4 :: "tensor4 \<Rightarrow> tensor4 \<Rightarrow> real" where
  "mse_loss4 a b =
     (case dims4 a of (d0, d1, d2, d3) \<Rightarrow>
        (\<Sum>i<d0. \<Sum>j<d1. \<Sum>k<d2. \<Sum>l<d3. (at4 a i j k l - at4 b i j k l)\<^sup>2)
          / real (d0 * d1 * d2 * d3))"

section \<open>The helper functions of the training loop\<close>

subsection \<open>\<^verbatim>\<open>sample_noise\<close>\<close>

text \<open>
  \<open>gauss\<close> is the outcome of \<^verbatim>\<open>torch.randn_like(latents)\<close> and \<open>offset\<close> the outcome of
  \<^verbatim>\<open>torch.randn(b, c, f, 1, 1)\<close>, which broadcasts over the last two dimensions.
\<close>

definition sample_noise ::
  "tensor5 \<Rightarrow> real \<Rightarrow> bool \<Rightarrow> (nat \<Rightarrow> nat \<Rightarrow> nat \<Rightarrow> nat \<Rightarrow> nat \<Rightarrow> real) \<Rightarrow> (nat \<Rightarrow> nat \<Rightarrow> nat \<Rightarrow> real) \<Rightarrow> tensor5"
where
  "sample_noise latents noise_strength use_offset_noise gauss offset =
     (let noise_latents = \<lparr>dims5 = dims5 latents, at5 = gauss\<rparr>
      in if use_offset_noise
         then noise_latents\<lparr>at5 := (\<lambda>i j k l m. gauss i j k l m + noise_strength * offset i j k)\<rparr>
         else noise_latents)"

subsection \<open>\<^verbatim>\<open>tensor_to_vae_latent\<close>\<close>

text \<open>
  \<^verbatim>\<open>rearrange(t, "b f c h w -> (b f) c h w")\<close> and
  \<^verbatim>\<open>rearrange(t, "(b f) c h w -> b c f h w", f=video_length)\<close>; the second one divides the
  first dimension by \<open>f\<close>, which raises \<open>ZeroDivisionError\<close> for \<open>f = 0\<close>, and raises
  \<open>EinopsError\<close> when the first dimension is not a multiple of \<open>f\<close>.
\<close>

definition merge_bf :: "tensor5 \<Rightarrow> tensor4" where
  "merge_bf t =
     (case dims5 t of (b, f, c, h, w) \<Rightarrow>
        \<lparr>dims4 = (b * f, c, h, w), at4 = (\<lambda>n j k l. at5 t (n div f) (n mod f) j k l)\<rparr>)"

definition split_bf :: "nat \<Rightarrow> tensor4 \<Rightarrow> error + tensor5" where
  "split_bf f t =
     (case dims4 t of (n, c, h, w) \<Rightarrow>
        if f = 0 then Inl ZeroDivisionError
        else if n mod f \<noteq> 0 then Inl EinopsError
        else Inr \<lparr>dims5 = (n div f, c, f, h, w), at5 = (\<lambda>i j k l m. at4 t (i * f + k) j l m)\<rparr>)"

text \<open>\<open>vae\<close> is \<^verbatim>\<open>vae.encode(t).latent_dist.sample()\<close>, a collaborator outside the source.\<close>

definition tensor_to_vae_latent :: "tensor5 \<Rightarrow> (tensor4 \<Rightarrow> tensor4) \<Rightarrow> error + tensor5" where
  "tensor_to_vae_latent t vae =
     (let video_length = shape1 t;
          latents = vae (merge_bf t)
      in case split_bf video_length latents of
           Inl e \<Rightarrow> Inl e
         | Inr latents \<Rightarrow> Inr (latents\<lparr>at5 := (\<lambda>i j k l m. at5 latents i j k l m * 0.18215)\<rparr>))"

subsection \<open>\<^verbatim>\<open>get_spatial_latents\<close>\<close>

text \<open>
  The two results \<^verbatim>\<open>noisy_latents_input\<close> and \<^verbatim>\<open>target_spatial\<close> are one frame (four
  dimensions) on the slicing path and a one-frame clip (five dimensions) on the flipped path.
\<close>

datatype latent = Frame tensor4 | Clip tensor5

text \<open>
  \<open>raw\<close> is the generator's output behind \<^verbatim>\<open>torch.randint\<close>, \<open>u\<close> the value of
  \<^verbatim>\<open>random.uniform(0, 1)\<close>, \<open>gauss\<close> the outcome of \<^verbatim>\<open>torch.randn_like\<close> on the flipped path,
  \<open>add_noise\<close> is \<^verbatim>\<open>noise_scheduler.add_noise\<close>.  On the flipped path with
  \<^verbatim>\<open>cache_latents\<close> false the function reads the name \<^verbatim>\<open>vae\<close>, which is neither a parameter
  nor a global of the module.
\<close>

definition get_spatial_latents ::
  "tensor5 \<Rightarrow> int \<Rightarrow> bool \<Rightarrow> tensor5 \<Rightarrow> tensor5 \<Rightarrow> nat list \<Rightarrow>
   (tensor5 \<Rightarrow> tensor5 \<Rightarrow> nat list \<Rightarrow> tensor5) \<Rightarrow>
   nat \<Rightarrow> real \<Rightarrow> (nat \<Rightarrow> nat \<Rightarrow> nat \<Rightarrow> nat \<Rightarrow> nat \<Rightarrow> real) \<Rightarrow>
   error + latent \<times> latent \<times> bool"
where
  "get_spatial_latents pixel_values random_hflip_img cache_latents noisy_latents target
       timesteps add_noise raw u gauss =
     (case randint 0 (shape2 pixel_values) raw of
        Inl e \<Rightarrow> Inl e
      | Inr ran_idx \<Rightarrow>
          let use_hflip = (u < real_of_int random_hflip_img)
          in if use_hflip then
               (case (if \<not> cache_latents then select1 pixel_values ran_idx
                      else select2 pixel_values ran_idx) of
                  Inl e \<Rightarrow> Inl e
                | Inr frame \<Rightarrow>
                    let pixel_values_spatial = unsqueeze1 (hflip frame)
                    in if \<not> cache_latents then Inl NameError
                       else
                         let latents_spatial = pixel_values_spatial;
                             noise_spatial =
                               sample_noise latents_spatial 0 False gauss (\<lambda>i j k. 0);
                             noisy_latents_input =
                               add_noise latents_spatial noise_spatial timesteps;
                             target_spatial = noise_spatial
                         in Inr (Clip noisy_latents_input, Clip target_spatial, use_hflip))
             else
               (case select2 noisy_latents ran_idx of
                  Inl e \<Rightarrow> Inl e
                | Inr noisy_latents_input \<Rightarrow>
                    (case select2 target ran_idx of
                       Inl e \<Rightarrow> Inl e
                     | Inr target_spatial \<Rightarrow>
                         Inr (Frame noisy_latents_input, Frame target_spatial, use_hflip))))"

subsection \<open>\<^verbatim>\<open>create_ad_temporal_loss\<close>\<close>

definition beta :: real where
  "beta = 1"

definition alpha :: real where
  "alpha = (beta\<^sup>2 + 1) powr 0.5"

text \<open>
  \<^verbatim>\<open>alpha * t - beta * t[:, :, ran_idx, :, :].unsqueeze(2)\<close>: the pivot frame broadcasts over
  the frame dimension.
\<close>

definition decent :: "tensor5 \<Rightarrow> nat \<Rightarrow> error + tensor5" where
  "decent t ran_idx =
     (case select2 t ran_idx of
        Inl e \<Rightarrow> Inl e
      | Inr pivot \<Rightarrow>
          Inr (t\<lparr>at5 := (\<lambda>i j k l m.
                 alpha * at5 t i j k l m - beta * at5 (unsqueeze2 pivot) i j 0 l m)\<rparr>))"

definition create_ad_temporal_loss :: "tensor5 \<Rightarrow> real \<Rightarrow> tensor5 \<Rightarrow> nat \<Rightarrow> error + real" where
  "create_ad_temporal_loss model_pred loss_temporal target raw =
     (case randint 0 (shape2 model_pred) raw of
        Inl e \<Rightarrow> Inl e
      | Inr ran_idx \<Rightarrow>
          (case decent model_pred ran_idx of
             Inl e \<Rightarrow> Inl e
           | Inr model_pred_decent \<Rightarrow>
               (case decent target ran_idx of
                  Inl e \<Rightarrow> Inl e
                | Inr target_decent \<Rightarrow>
                    let loss_ad_temporal = mse_loss5 model_pred_decent target_decent
                    in Inr (loss_temporal + loss_ad_temporal))))"

section \<open>The node \<^verbatim>\<open>AD_MotionDirector_train\<close>\<close>

subsection \<open>State, events and outcomes\<close>

text \<open>
  The calls that bear on the training protocol are recorded, in order, in a trace:
  \<^verbatim>\<open>add_lora_to_model\<close> (with its dropout and its rank \<open>r\<close>),
  \<^verbatim>\<open>scaler.scale(loss).backward\<close>, \<^verbatim>\<open>scaler.step\<close> and the \<^verbatim>\<open>step\<close> of a learning-rate
  scheduler (with the index into the optimizer or scheduler list), \<^verbatim>\<open>scaler.update\<close>,
  \<^verbatim>\<open>save_lora_weights\<close> (with \<open>step\<close> and \<open>lora_rank\<close>) and \<^verbatim>\<open>save_videos_grid\<close>.
\<close>

datatype role = Spatial | Temporal

datatype event =
    AddLora role real int
  | Backward role
  | ScalerStep role nat
  | LrStep role nat
  | ScalerUpdate
  | SaveLora role int int
  | SaveSample int

text \<open>
  \<open>samples\<close> is \<open>None\<close> as long as the local variable \<^verbatim>\<open>samples\<close> is unbound; reading an
  unbound local variable raises \<open>UnboundLocalError\<close>, reading an undefined global name
  raises \<open>NameError\<close>.
\<close>

record train_state =
  global_step :: int
  trace :: "event list"
  samples :: "int list option"

datatype outcome = Normal train_state | Raised error train_state

definition then_do :: "outcome \<Rightarrow> (train_state \<Rightarrow> outcome) \<Rightarrow> outcome" where
  "then_do r f = (case r of Normal s \<Rightarrow> f s | Raised e s \<Rightarrow> Raised e s)"

definition emit :: "event \<Rightarrow> train_state \<Rightarrow> train_state" where
  "emit ev st = st\<lparr>trace := trace st @ [ev]\<rparr>"

fun final_state :: "outcome \<Rightarrow> train_state" where
  "final_state (Normal s) = s"
| "final_state (Raised e s) = s"

subsection \<open>Inputs, local settings and the environment of one step\<close>

text \<open>The inputs of the node that the training protocol reads (\<^verbatim>\<open>INPUT_TYPES\<close>).\<close>

record node_inputs =
  images :: tensor4
  max_train_epoch :: int
  max_train_steps :: int
  checkpointing_steps :: int
  checkpointing_epochs :: int
  lora_rank :: int

text \<open>
  The local constants of \<^verbatim>\<open>process\<close>.  \<open>rank\<close> is the local \<^verbatim>\<open>lora_rank\<close> after the
  assignment \<^verbatim>\<open>lora_rank = 32\<close>; \<open>spatial_lora_num\<close> is set by \<^verbatim>\<open>single_spatial_lora\<close>.
\<close>

record settings =
  random_hflip_img :: int
  rank :: int
  lora_unet_dropout :: real
  train_temporal_lora :: bool
  spatial_lora_num :: nat
  cache_latents :: bool
  use_offset_noise :: bool

definition hardcoded :: settings where
  "hardcoded =
     \<lparr>random_hflip_img = - 1,
      rank = 32,
      lora_unet_dropout = 0.1,
      train_temporal_lora = True,
      spatial_lora_num = 1,
      cache_latents = False,
      use_offset_noise = False\<rparr>"

definition gradient_accumulation_steps :: int where
  "gradient_accumulation_steps = 1"

definition first_epoch :: nat where
  "first_epoch = 0"

definition batch_size :: nat where
  "batch_size = 1"

definition validation_steps :: int where
  "validation_steps = 25"

definition validation_steps_tuple :: "int list" where
  "validation_steps_tuple = [2, 25]"

text \<open>
  What one pass through the loop body takes from outside the source: the random draws, the
  collaborators (the VAE, the two noise schedulers, the UNet with the adapters gated for the
  spatial and for the temporal prediction) and whether a save raises.
\<close>

record step_env =
  mask_draw :: real
  timesteps_draw :: "nat list"
  vae_encode :: "tensor4 \<Rightarrow> tensor4"
  noise_gauss :: "nat \<Rightarrow> nat \<Rightarrow> nat \<Rightarrow> nat \<Rightarrow> nat \<Rightarrow> real"
  noise_offset :: "nat \<Rightarrow> nat \<Rightarrow> nat \<Rightarrow> real"
  add_noise_spatial :: "tensor5 \<Rightarrow> tensor5 \<Rightarrow> nat list \<Rightarrow> tensor5"
  add_noise_temporal :: "tensor5 \<Rightarrow> tensor5 \<Rightarrow> nat list \<Rightarrow> tensor5"
  spatial_raw :: nat
  hflip_draw :: real
  hflip_gauss :: "nat \<Rightarrow> nat \<Rightarrow> nat \<Rightarrow> nat \<Rightarrow> nat \<Rightarrow> real"
  unet_spatial :: "tensor5 \<Rightarrow> nat list \<Rightarrow> tensor5"
  unet_temporal :: "tensor5 \<Rightarrow> nat list \<Rightarrow> tensor5"
  pivot_raw :: nat
  spatial_has_grad :: bool
  save_spatial_raises :: bool
  save_temporal_raises :: bool
  sample_save_raises :: bool
  grid_save_raises :: bool

subsection \<open>Configuration\<close>

text \<open>
  \<^verbatim>\<open>if max_train_steps == -1: assert max_train_epoch != -1; max_train_steps = max_train_epoch\<close>,
  and the same statement for \<^verbatim>\<open>checkpointing_steps\<close> and \<^verbatim>\<open>checkpointing_epochs\<close>.
\<close>

definition get_training_iteration :: "int \<Rightarrow> int \<Rightarrow> error + int" where
  "get_training_iteration steps epochs =
     (if steps = - 1
      then (if epochs \<noteq> - 1 then Inr epochs else Inl AssertionError)
      else Inr steps)"

text \<open>\<^verbatim>\<open>images.permute(0, 3, 1, 2).unsqueeze(0)\<close> of the normalized images.\<close>

definition to_pixel_values :: "tensor4 \<Rightarrow> tensor5" where
  "to_pixel_values imgs = unsqueeze0 (permute_0312 (normalize imgs))"

subsection \<open>Masking\<close>

definition mask_temporal_lora :: "bool \<Rightarrow> bool" where
  "mask_temporal_lora train_temporal = (if train_temporal then False else True)"

text \<open>\<open>u\<close> is the value of \<^verbatim>\<open>random.uniform(0, 1)\<close>.\<close>

definition mask_spatial_lora :: "real \<Rightarrow> bool \<Rightarrow> bool" where
  "mask_spatial_lora u mask_temporal = (u < 0.2 \<and> \<not> mask_temporal)"

subsection \<open>Forward passes\<close>

text \<open>
  The spatial prediction.  \<^verbatim>\<open>get_spatial_latents\<close> returns clips exactly when \<^verbatim>\<open>use_hflip\<close>
  holds; the other combinations do not arise and are given \<open>RuntimeError\<close>.
\<close>

definition spatial_prediction ::
  "settings \<Rightarrow> step_env \<Rightarrow> tensor5 \<Rightarrow> tensor5 \<Rightarrow> tensor5 \<Rightarrow> error + real" where
  "spatial_prediction S env pixel_values latents noise =
     (let noisy_latents = add_noise_spatial env latents noise (timesteps_draw env)
      in case get_spatial_latents pixel_values (random_hflip_img S) (cache_latents S)
                noisy_latents noise (timesteps_draw env) (add_noise_spatial env)
                (spatial_raw env) (hflip_draw env) (hflip_gauss env) of
           Inl e \<Rightarrow> Inl e
         | Inr (noisy_latents_input, target_spatial, use_hflip) \<Rightarrow>
             if use_hflip then
               (case (noisy_latents_input, target_spatial) of
                  (Clip x, Clip t) \<Rightarrow>
                    (case select2 (unet_spatial env x (timesteps_draw env)) 0 of
                       Inl e \<Rightarrow> Inl e
                     | Inr model_pred_spatial \<Rightarrow>
                         (case select2 t 0 of
                            Inl e \<Rightarrow> Inl e
                          | Inr t0 \<Rightarrow> Inr (mse_loss4 model_pred_spatial t0)))
                | _ \<Rightarrow> Inl RuntimeError)
             else
               (case (noisy_latents_input, target_spatial) of
                  (Frame x, Frame t) \<Rightarrow>
                    (case select2 (unet_spatial env (unsqueeze2 x) (timesteps_draw env)) 0 of
                       Inl e \<Rightarrow> Inl e
                     | Inr model_pred_spatial \<Rightarrow> Inr (mse_loss4 model_pred_spatial t))
                | _ \<Rightarrow> Inl RuntimeError))"

definition temporal_prediction ::
  "step_env \<Rightarrow> tensor5 \<Rightarrow> tensor5 \<Rightarrow> error + real" where
  "temporal_prediction env latents noise =
     (let noisy_latents = add_noise_temporal env latents noise (timesteps_draw env);
          model_pred = unet_temporal env noisy_latents (timesteps_draw env);
          loss_temporal = mse_loss5 model_pred noise
      in create_ad_temporal_loss model_pred loss_temporal noise (pivot_raw env))"

text \<open>The noise of the step: \<^verbatim>\<open>sample_noise(latents, 0, use_offset_noise=use_offset_noise)\<close>.\<close>

definition step_noise :: "settings \<Rightarrow> step_env \<Rightarrow> tensor5 \<Rightarrow> tensor5" where
  "step_noise S env latents =
     sample_noise latents 0 (use_offset_noise S) (noise_gauss env) (noise_offset env)"

text \<open>The two losses of a step; \<open>None\<close> is the loss of a masked role.\<close>

definition forward ::
  "settings \<Rightarrow> step_env \<Rightarrow> tensor5 \<Rightarrow> bool \<Rightarrow> bool \<Rightarrow> error + real option \<times> real option" where
  "forward S env pixel_values mask_spatial mask_temporal =
     (case (if \<not> cache_latents S then tensor_to_vae_latent pixel_values (vae_encode env)
            else Inr pixel_values) of
        Inl e \<Rightarrow> Inl e
      | Inr latents \<Rightarrow>
          (let noise = step_noise S env latents
           in (case (if mask_spatial then Inr None
                     else map_sum id Some
                            (spatial_prediction S env pixel_values latents noise)) of
                 Inl e \<Rightarrow> Inl e
               | Inr loss_spatial \<Rightarrow>
                   (case (if mask_temporal then Inr None
                          else map_sum id Some (temporal_prediction env latents noise)) of
                      Inl e \<Rightarrow> Inl e
                    | Inr loss_temporal \<Rightarrow> Inr (loss_spatial, loss_temporal)))))"

subsection \<open>Backpropagation and schedules\<close>

definition backward_spatial ::
  "settings \<Rightarrow> step_env \<Rightarrow> nat \<Rightarrow> bool \<Rightarrow> train_state \<Rightarrow> outcome" where
  "backward_spatial S env step mask_spatial st =
     (if \<not> mask_spatial then
        (let st1 = emit (Backward Spatial) st
         in if spatial_lora_num S = 1 then Normal (emit (ScalerStep Spatial 0) st1)
            else if step < spatial_lora_num S then
              (if spatial_has_grad env then Normal (emit (ScalerStep Spatial step) st1)
               else Normal st1)
            else Raised IndexError st1)
      else Normal st)"

definition backward_temporal :: "settings \<Rightarrow> bool \<Rightarrow> train_state \<Rightarrow> outcome" where
  "backward_temporal S mask_temporal st =
     (if \<not> mask_temporal \<and> train_temporal_lora S
      then Normal (emit (ScalerStep Temporal 0) (emit (Backward Temporal) st))
      else Normal st)"

definition step_schedules :: "settings \<Rightarrow> nat \<Rightarrow> train_state \<Rightarrow> outcome" where
  "step_schedules S step st =
     then_do
       (if spatial_lora_num S = 1 then Normal (emit (LrStep Spatial 0) st)
        else if step < spatial_lora_num S then Normal (emit (LrStep Spatial step) st)
        else Raised IndexError st)
       (\<lambda>s. if train_temporal_lora S then Normal (emit (LrStep Temporal 0) s) else Normal s)"

text \<open>\<^verbatim>\<open>scaler.update()\<close> and \<^verbatim>\<open>global_step += 1\<close>.\<close>

definition scaler_update :: "train_state \<Rightarrow> train_state" where
  "scaler_update st = (emit ScalerUpdate st)\<lparr>global_step := global_step st + 1\<rparr>"

subsection \<open>Checkpoints, validation and the log line\<close>

definition save_checkpoint :: "settings \<Rightarrow> int \<Rightarrow> step_env \<Rightarrow> train_state \<Rightarrow> outcome" where
  "save_checkpoint S ckpt_steps env st =
     (if ckpt_steps = 0 then Raised ZeroDivisionError st
      else if global_step st mod ckpt_steps = 0 then
        then_do
          (if spatial_lora_num S = 0 then Raised UnboundLocalError st
           else if save_spatial_raises env then Raised OSError st
           else Normal (emit (SaveLora Spatial (global_step st) (rank S)) st))
          (\<lambda>s. if train_temporal_lora S then
                  (if save_temporal_raises env then Raised OSError s
                   else Normal (emit (SaveLora Temporal (global_step s) (rank S)) s))
                else Normal s)
      else Normal st)"

definition validation :: "step_env \<Rightarrow> train_state \<Rightarrow> outcome" where
  "validation env st =
     (if global_step st mod validation_steps = 0 \<or> global_step st \<in> set validation_steps_tuple
      then
        (let st1 = st\<lparr>samples := Some []\<rparr>
         in if sample_save_raises env then Raised OSError st1
            else
              (let st2 = (emit (SaveSample (global_step st)) st1)
                           \<lparr>samples := Some [global_step st]\<rparr>
               in if grid_save_raises env then Raised OSError st2
                  else Normal (emit (SaveSample (global_step st)) st2)))
      else Normal st)"

text \<open>\<^verbatim>\<open>loss_temporal.detach().item()\<close> in the log line.\<close>

definition logs :: "real option \<Rightarrow> train_state \<Rightarrow> outcome" where
  "logs loss_temporal st =
     (case loss_temporal of None \<Rightarrow> Raised AttributeError st | Some l \<Rightarrow> Normal st)"

subsection \<open>The loop\<close>

text \<open>The body of the inner loop, up to the \<^verbatim>\<open>break\<close> test.\<close>

definition train_step ::
  "settings \<Rightarrow> int \<Rightarrow> tensor5 \<Rightarrow> step_env \<Rightarrow> nat \<Rightarrow> train_state \<Rightarrow> outcome" where
  "train_step S ckpt_steps pixel_values env step st =
     (let mask_temporal = mask_temporal_lora (train_temporal_lora S);
          mask_spatial = mask_spatial_lora (mask_draw env) mask_temporal
      in case forward S env pixel_values mask_spatial mask_temporal of
           Inl e \<Rightarrow> Raised e st
         | Inr (loss_spatial, loss_temporal) \<Rightarrow>
             then_do (backward_spatial S env step mask_spatial st) (\<lambda>s.
             then_do (backward_temporal S mask_temporal s) (\<lambda>s.
             then_do (step_schedules S step s) (\<lambda>s.
             then_do (save_checkpoint S ckpt_steps env (scaler_update s)) (\<lambda>s.
             then_do (validation env s) (\<lambda>s.
             logs loss_temporal s))))))"

text \<open>
  \<^verbatim>\<open>for step in range(batch_size)\<close> with its \<^verbatim>\<open>break\<close>, and
  \<^verbatim>\<open>for epoch in range(first_epoch, num_train_epochs)\<close>.  The environment of a pass is
  the one of the current \<open>global_step\<close>.
\<close>

fun step_loop ::
  "settings \<Rightarrow> int \<Rightarrow> int \<Rightarrow> tensor5 \<Rightarrow> (nat \<Rightarrow> step_env) \<Rightarrow> nat list \<Rightarrow> train_state \<Rightarrow> outcome"
where
  "step_loop S max_steps ckpt_steps pixel_values E [] st = Normal st"
| "step_loop S max_steps ckpt_steps pixel_values E (step # steps) st =
     (case train_step S ckpt_steps pixel_values (E (nat (global_step st))) step st of
        Raised e s \<Rightarrow> Raised e s
      | Normal s \<Rightarrow>
          if global_step s \<ge> max_steps then Normal s
          else step_loop S max_steps ckpt_steps pixel_values E steps s)"

fun epoch_loop ::
  "settings \<Rightarrow> int \<Rightarrow> int \<Rightarrow> tensor5 \<Rightarrow> (nat \<Rightarrow> step_env) \<Rightarrow> nat list \<Rightarrow> train_state \<Rightarrow> outcome"
where
  "epoch_loop S max_steps ckpt_steps pixel_values E [] st = Normal st"
| "epoch_loop S max_steps ckpt_steps pixel_values E (epoch # epochs) st =
     (case step_loop S max_steps ckpt_steps pixel_values E [0..<batch_size] st of
        Raised e s \<Rightarrow> Raised e s
      | Normal s \<Rightarrow> epoch_loop S max_steps ckpt_steps pixel_values E epochs s)"

text \<open>
  \<^verbatim>\<open>num_update_steps_per_epoch = math.ceil(1) / gradient_accumulation_steps\<close> and
  \<^verbatim>\<open>num_train_epochs = math.ceil(max_train_steps / num_update_steps_per_epoch)\<close>.
\<close>

definition num_train_epochs :: "int \<Rightarrow> int" where
  "num_train_epochs max_steps =
     \<lceil>real_of_int max_steps
        / (real_of_int \<lceil>1 :: real\<rceil> / real_of_int gradient_accumulation_steps)\<rceil>"

text \<open>The adapters injected before the loop: the temporal one, then the spatial ones.\<close>

definition inject_loras :: "settings \<Rightarrow> train_state \<Rightarrow> train_state" where
  "inject_loras S st =
     st\<lparr>trace := trace st
          @ (if train_temporal_lora S then [AddLora Temporal 0 (rank S)] else [])
          @ map (\<lambda>i. AddLora Spatial (lora_unet_dropout S) (rank S)) [0..<spatial_lora_num S]\<rparr>"

definition initial_state :: train_state where
  "initial_state = \<lparr>global_step = 0, trace = [], samples = None\<rparr>"

text \<open>
  \<^verbatim>\<open>process\<close> with the local constants as a parameter.  The input \<^verbatim>\<open>lora_rank\<close> is
  overwritten before its first use, so the body never reads it.
\<close>

definition process_with :: "settings \<Rightarrow> node_inputs \<Rightarrow> (nat \<Rightarrow> step_env) \<Rightarrow> outcome" where
  "process_with S inp E =
     (let pixel_values = to_pixel_values (images inp)
      in case get_training_iteration (max_train_steps inp) (max_train_epoch inp) of
           Inl e \<Rightarrow> Raised e initial_state
         | Inr max_steps \<Rightarrow>
             (case get_training_iteration (checkpointing_steps inp) (checkpointing_epochs inp) of
                Inl e \<Rightarrow> Raised e initial_state
              | Inr ckpt_steps \<Rightarrow>
                  then_do
                    (epoch_loop S max_steps ckpt_steps pixel_values E
                       [first_epoch..<nat (num_train_epochs max_steps)]
                       (inject_loras S initial_state))
                    (\<lambda>s. case samples s of
                           None \<Rightarrow> Raised UnboundLocalError s
                         | Some v \<Rightarrow> Normal s)))"

definition process :: "node_inputs \<Rightarrow> (nat \<Rightarrow> step_env) \<Rightarrow> outcome" where
  "process inp E = process_with hardcoded inp E"

section \<open>Counting events, and example inputs\<close>

text \<open>
  Equality of two tensors as \<^verbatim>\<open>torch.equal\<close> decides it: the same shape and the same element
  at every index within the shape.
\<close>

definition tensor_eq5 :: "tensor5 \<Rightarrow> tensor5 \<Rightarrow> bool" where
  "tensor_eq5 a b =
     (dims5 a = dims5 b \<and>
      (case dims5 a of (d0, d1, d2, d3, d4) \<Rightarrow>
         \<forall>i\<in>{..<d0}. \<forall>j\<in>{..<d1}. \<forall>k\<in>{..<d2}. \<forall>l\<in>{..<d3}. \<forall>m\<in>{..<d4}.
           at5 a i j k l m = at5 b i j k l m))"

text \<open>The calls of a trace, counted by kind.\<close>

fun is_lr_step :: "role \<Rightarrow> event \<Rightarrow> bool" where
  "is_lr_step r (LrStep r' i) = (r = r')"
| "is_lr_step r ev = False"

fun is_scaler_step :: "event \<Rightarrow> bool" where
  "is_scaler_step (ScalerStep r i) = True"
| "is_scaler_step ev = False"

definition lr_steps :: "role \<Rightarrow> event list \<Rightarrow> nat" where
  "lr_steps r evs = length (filter (is_lr_step r) evs)"

definition scaler_steps :: "event list \<Rightarrow> nat" where
  "scaler_steps evs = length (filter is_scaler_step evs)"

definition scaler_updates :: "event list \<Rightarrow> nat" where
  "scaler_updates evs = count_list evs ScalerUpdate"

text \<open>The counters of a state: steps, scaler updates, schedule steps of the two roles.\<close>

definition counters :: "train_state \<Rightarrow> int \<times> nat \<times> nat \<times> nat" where
  "counters s =
     (global_step s, scaler_updates (trace s), lr_steps Spatial (trace s),
      lr_steps Temporal (trace s))"

definition bump :: "settings \<Rightarrow> int \<times> nat \<times> nat \<times> nat \<Rightarrow> int \<times> nat \<times> nat \<times> nat" where
  "bump S cs =
     (case cs of (g, u, ls, lt) \<Rightarrow>
        (g + 1, Suc u, Suc ls, (if train_temporal_lora S then Suc lt else lt)))"

text \<open>The state invariant: every counter equals the number of completed updates.\<close>

definition in_step :: "settings \<Rightarrow> train_state \<Rightarrow> bool" where
  "in_step S s =
     (case counters s of (g, u, ls, lt) \<Rightarrow>
        g = int u \<and> ls = u \<and> lt = (if train_temporal_lora S then u else 0))"

text \<open>
  Example inputs: sixteen RGB frames of 8 by 8 pixels; an environment whose collaborators
  return their first argument, with the draw of the spatial mask and the failure of the
  first checkpoint save and of the first sample save as parameters; the default values of
  \<^verbatim>\<open>INPUT_TYPES\<close>.
\<close>

definition example_images :: tensor4 where
  "example_images = \<lparr>dims4 = (16, 8, 8, 3), at4 = (\<lambda>i j k l. 1 / 2)\<rparr>"

definition example_env :: "real \<Rightarrow> bool \<Rightarrow> bool \<Rightarrow> step_env" where
  "example_env u ckpt_fails sample_fails =
     \<lparr>mask_draw = u,
      timesteps_draw = [0],
      vae_encode = (\<lambda>t. t),
      noise_gauss = (\<lambda>i j k l m. 0),
      noise_offset = (\<lambda>i j k. 1),
      add_noise_spatial = (\<lambda>latents noise ts. latents),
      add_noise_temporal = (\<lambda>latents noise ts. latents),
      spatial_raw = 0,
      hflip_draw = 1 / 2,
      hflip_gauss = (\<lambda>i j k l m. 0),
      unet_spatial = (\<lambda>x ts. x),
      unet_temporal = (\<lambda>x ts. x),
      pivot_raw = 0,
      spatial_has_grad = True,
      save_spatial_raises = ckpt_fails,
      save_temporal_raises = False,
      sample_save_raises = sample_fails,
      grid_save_raises = False\<rparr>"

definition quiet_env :: "real \<Rightarrow> step_env" where
  "quiet_env u = example_env u False False"

definition default_inputs :: node_inputs where
  "default_inputs =
     \<lparr>images = example_images,
      max_train_epoch = 300,
      max_train_steps = - 1,
      checkpointing_steps = 100,
      checkpointing_epochs = - 1,
      lora_rank = 32\<rparr>"

text \<open>
  The state after the backward passes, the schedule steps and the scaler update of one pass
  of the node with its local constants, the spatial role being masked or not.
\<close>

definition after_backprop :: "bool \<Rightarrow> train_state \<Rightarrow> train_state" where
  "after_backprop ms st =
     scaler_update (emit (LrStep Temporal 0) (emit (LrStep Spatial 0)
       (emit (ScalerStep Temporal 0) (emit (Backward Temporal)
          (if ms then st else emit (ScalerStep Spatial 0) (emit (Backward Spatial) st))))))"

text \<open>The test of the validation cadence.\<close>

definition validation_due :: "int \<Rightarrow> bool" where
  "validation_due g = (g mod validation_steps = 0 \<or> g \<in> set validation_steps_tuple)"

text \<open>
  Example runs: one without failures in which the spatial role is masked at every even
  step, one in which every checkpoint save fails, one in which every sample save fails; and
  inputs that set both values of each pair.
\<close>

definition quiet_run :: "nat \<Rightarrow> step_env" where
  "quiet_run n = quiet_env (if even n then 1 / 10 else 1 / 2)"



definition both_set_inputs :: node_inputs where
  "both_set_inputs =
     \<lparr>images = example_images,
      max_train_epoch = 300,
      max_train_steps = 100,
      checkpointing_steps = 100,
      checkpointing_epochs = 50,
      lora_rank = 32\<rparr>"

text \<open>From the second step on, the variable \<^verbatim>\<open>samples\<close> is bound.\<close>

definition samples_bound :: "train_state \<Rightarrow> bool" where
  "samples_bound s = (2 \<le> global_step s \<longrightarrow> samples s \<noteq> None)"

text \<open>Two tensors that agree on every index within their common shape.\<close>

definition example_pred :: tensor5 where
  "example_pred = \<lparr>dims5 = (1, 1, 2, 1, 1), at5 = (\<lambda>i j k l m. real k)\<rparr>"

definition example_target :: tensor5 where
  "example_target =
     \<lparr>dims5 = (1, 1, 2, 1, 1), at5 = (\<lambda>i j k l m. if k < 2 then real k else 7)\<rparr>"

text \<open>A clip of two RGB frames, and latents of two frames.\<close>

definition two_frame_images :: tensor4 where
  "two_frame_images = \<lparr>dims4 = (2, 8, 8, 3), at4 = (\<lambda>i j k l. 1 / 2)\<rparr>"

definition two_frame_latents :: tensor5 where
  "two_frame_latents = \<lparr>dims5 = (1, 4, 2, 1, 1), at5 = (\<lambda>i j k l m. 0)\<rparr>"

text \<open>More inputs of the node, and the state in which the loop starts.\<close>

definition neither_set_inputs :: node_inputs where
  "neither_set_inputs = default_inputs\<lparr>max_train_epoch := - 1\<rparr>"

definition rank64_inputs :: node_inputs where
  "rank64_inputs = default_inputs\<lparr>lora_rank := 64\<rparr>"


definition start_state :: train_state where
  "start_state = inject_loras hardcoded initial_state"

text \<open>The states in which the two failing example runs end.\<close>

definition after_failed_sample :: train_state where
  "after_failed_sample =
     (after_backprop False (after_backprop False start_state))\<lparr>samples := Some []\<rparr>"


section \<open>Lemmas\<close>

lemma alpha_sqrt2: "alpha = sqrt 2"
  by (simp add: alpha_def beta_def powr_half_sqrt)

lemma randint_lt:
  assumes "low < high"
  shows "\<exists>r. randint low high raw = Inr r \<and> low \<le> r \<and> r < high"
proof -
  have "raw mod (high - low) < high - low"
    using assms by simp
  then have "low + raw mod (high - low) < high"
    by linarith
  then show ?thesis
    using assms by (simp add: randint_def)
qed

lemma then_do_Normal [simp]: "then_do (Normal s) f = f s"
  by (simp add: then_do_def)

lemma then_do_Raised [simp]: "then_do (Raised e s) f = Raised e s"
  by (simp add: then_do_def)

lemma counters_emit:
  "counters (emit ev s) =
     (case counters s of (g, u, ls, lt) \<Rightarrow>
        (g, (if ev = ScalerUpdate then Suc u else u),
         (if is_lr_step Spatial ev then Suc ls else ls),
         (if is_lr_step Temporal ev then Suc lt else lt)))"
  by (simp add: counters_def emit_def scaler_updates_def lr_steps_def)

lemma counters_samples [simp]: "counters (s\<lparr>samples := x\<rparr>) = counters s"
  by (simp add: counters_def)

lemma backward_spatial_counters:
  "counters (final_state (backward_spatial S env step ms st)) = counters st"
  by (simp add: backward_spatial_def Let_def counters_emit split: prod.splits)

lemma backward_temporal_counters:
  "\<exists>s. backward_temporal S mt st = Normal s \<and> counters s = counters st"
  by (simp add: backward_temporal_def counters_emit split: prod.splits)

lemma step_schedules_Raised:
  "step_schedules S step st = Raised e s \<Longrightarrow> counters s = counters st"
  by (auto simp add: step_schedules_def counters_emit split: if_splits prod.splits)

lemma step_schedules_Normal:
  "step_schedules S step st = Normal s \<Longrightarrow>
     counters s = (case counters st of (g, u, ls, lt) \<Rightarrow>
                     (g, u, Suc ls, (if train_temporal_lora S then Suc lt else lt)))"
  by (auto simp add: step_schedules_def counters_emit split: if_splits prod.splits)

lemma scaler_update_counters:
  "counters (scaler_update s) = (case counters s of (g, u, ls, lt) \<Rightarrow> (g + 1, Suc u, ls, lt))"
  by (simp add: scaler_update_def counters_def emit_def scaler_updates_def lr_steps_def)

lemma save_checkpoint_counters:
  "counters (final_state (save_checkpoint S c env st)) = counters st"
  by (simp add: save_checkpoint_def counters_emit split: prod.splits)

lemma validation_counters:
  "counters (final_state (validation env st)) = counters st"
  by (simp add: validation_def Let_def counters_emit split: prod.splits)

lemma logs_counters:
  "counters (final_state (logs l st)) = counters st"
  by (simp add: logs_def split: option.splits)

lemma final_state_then_do:
  "final_state (then_do r f) = (case r of Normal s \<Rightarrow> final_state (f s) | Raised e s \<Rightarrow> s)"
  by (cases r) simp_all

lemma post_update_counters:
  "counters (final_state
     (then_do (save_checkpoint S c env s) (\<lambda>s. then_do (validation env s) (\<lambda>s. logs l s))))
   = counters s"
proof (cases "save_checkpoint S c env s")
  case (Raised e s1)
  then show ?thesis
    using save_checkpoint_counters [of S c env s] by simp
next
  case (Normal s1)
  then have c1: "counters s1 = counters s"
    using save_checkpoint_counters [of S c env s] by simp
  show ?thesis
  proof (cases "validation env s1")
    case (Raised e s2)
    then show ?thesis
      using Normal c1 validation_counters [of env s1] by simp
  next
    case Normal2: (Normal s2)
    then have "counters s2 = counters s1"
      using validation_counters [of env s1] by simp
    then show ?thesis
      using Normal Normal2 c1 logs_counters [of l s2] by simp
  qed
qed

lemma train_step_cases:
  "(\<exists>e s. train_step S c pv env step st = Raised e s \<and> counters s = counters st)
   \<or> counters (final_state (train_step S c pv env step st)) = bump S (counters st)"
proof -
  define mt where "mt = mask_temporal_lora (train_temporal_lora S)"
  define ms where "ms = mask_spatial_lora (mask_draw env) mt"
  show ?thesis
  proof (cases "forward S env pv ms mt")
    case (Inl e)
    then have "train_step S c pv env step st = Raised e st"
      by (simp add: train_step_def ms_def mt_def Let_def)
    then show ?thesis by blast
  next
    case (Inr p)
    obtain lsp ltm where p: "p = (lsp, ltm)" by (cases p)
    have ts: "train_step S c pv env step st =
        then_do (backward_spatial S env step ms st) (\<lambda>s.
        then_do (backward_temporal S mt s) (\<lambda>s.
        then_do (step_schedules S step s) (\<lambda>s.
        then_do (save_checkpoint S c env (scaler_update s)) (\<lambda>s.
        then_do (validation env s) (\<lambda>s. logs ltm s)))))"
      using Inr p by (simp add: train_step_def ms_def mt_def Let_def)
    show ?thesis
    proof (cases "backward_spatial S env step ms st")
      case (Raised e s1)
      then have "counters s1 = counters st"
        using backward_spatial_counters [of S env step ms st] by simp
      then show ?thesis using ts Raised by simp
    next
      case (Normal s1)
      then have c1: "counters s1 = counters st"
        using backward_spatial_counters [of S env step ms st] by simp
      obtain s2 where s2: "backward_temporal S mt s1 = Normal s2" "counters s2 = counters s1"
        using backward_temporal_counters by blast
      show ?thesis
      proof (cases "step_schedules S step s2")
        case (Raised e s3)
        then have "counters s3 = counters st"
          using step_schedules_Raised c1 s2 by simp
        then show ?thesis using ts Normal s2 Raised by simp
      next
        case Normal3: (Normal s3)
        have "counters (scaler_update s3) = bump S (counters st)"
          using step_schedules_Normal [OF Normal3] c1 s2
          by (simp add: scaler_update_counters bump_def split: prod.splits)
        then show ?thesis
          using ts Normal s2 Normal3 post_update_counters [of S c env "scaler_update s3" ltm]
          by simp
      qed
    qed
  qed
qed

lemma train_step_Normal:
  assumes "train_step S c pv env step st = Normal s"
  shows "counters s = bump S (counters st)"
  using train_step_cases [of S c pv env step st] assms by auto

lemma train_step_Raised:
  assumes "train_step S c pv env step st = Raised e s"
  shows "counters s = counters st \<or> counters s = bump S (counters st)"
  using train_step_cases [of S c pv env step st] assms by auto

lemma step_loop_batch:
  "step_loop S m c pv E [0..<batch_size] st = train_step S c pv (E (nat (global_step st))) 0 st"
  by (simp add: batch_size_def split: outcome.splits)

lemma epoch_loop_Cons:
  "epoch_loop S m c pv E (epoch # epochs) st =
     then_do (train_step S c pv (E (nat (global_step st))) 0 st) (epoch_loop S m c pv E epochs)"
  by (simp add: step_loop_batch then_do_def del: upt_Suc split: outcome.splits)


lemma in_step_bump: "in_step S st \<Longrightarrow> counters s = bump S (counters st) \<Longrightarrow> in_step S s"
  by (auto simp add: in_step_def bump_def split: prod.splits)

lemma in_step_same: "in_step S st \<Longrightarrow> counters s = counters st \<Longrightarrow> in_step S s"
  by (simp add: in_step_def)

lemma epoch_loop_in_step:
  "in_step S st \<Longrightarrow> in_step S (final_state (epoch_loop S m c pv E epochs st))"
proof (induction epochs arbitrary: st)
  case Nil
  then show ?case by simp
next
  case (Cons x xs)
  show ?case
  proof (cases "train_step S c pv (E (nat (global_step st))) 0 st")
    case (Normal s)
    then have "in_step S s"
      using train_step_Normal in_step_bump Cons.prems by blast
    then show ?thesis
      using Cons.IH [of s] Normal by (simp add: epoch_loop_Cons del: epoch_loop.simps)
  next
    case (Raised e s)
    then have "in_step S s"
      using train_step_Raised [OF Raised] in_step_bump in_step_same Cons.prems by blast
    then show ?thesis using Raised by (simp add: epoch_loop_Cons del: epoch_loop.simps)
  qed
qed

lemma epoch_loop_Normal_steps:
  "epoch_loop S m c pv E epochs st = Normal s \<Longrightarrow>
     global_step s = global_step st + int (length epochs)"
proof (induction epochs arbitrary: st)
  case Nil
  then show ?case by simp
next
  case (Cons x xs)
  show ?case
  proof (cases "train_step S c pv (E (nat (global_step st))) 0 st")
    case (Normal s1)
    then have "global_step s1 = global_step st + 1"
      using train_step_Normal [OF Normal] by (simp add: counters_def bump_def)
    moreover have "epoch_loop S m c pv E xs s1 = Normal s"
      using Cons.prems Normal by (simp add: epoch_loop_Cons del: epoch_loop.simps)
    ultimately show ?thesis using Cons.IH [of s1] by simp
  next
    case (Raised e s1)
    then show ?thesis using Cons.prems by (simp add: epoch_loop_Cons del: epoch_loop.simps)
  qed
qed

lemma num_train_epochs_eq: "num_train_epochs m = m"
  by (simp add: num_train_epochs_def gradient_accumulation_steps_def)

lemma inject_loras_in_step: "in_step S (inject_loras S initial_state)"
  by (auto simp add: in_step_def counters_def inject_loras_def initial_state_def
      scaler_updates_def lr_steps_def filter_map o_def count_list_0_iff)

lemma pv_dims: "dims5 (to_pixel_values example_images) = (1, 16, 3, 8, 8)"
  by (simp add: to_pixel_values_def example_images_def unsqueeze0_def permute_0312_def normalize_def)

lemma latents_quiet:
  "\<exists>t. tensor_to_vae_latent (to_pixel_values example_images) (\<lambda>t. t) = Inr t
        \<and> dims5 t = (1, 3, 16, 8, 8)"
  by (simp add: tensor_to_vae_latent_def merge_bf_def split_bf_def pv_dims)

lemma spatial_quiet:
  assumes "dims5 latents = (1, 3, 16, 8, 8)"
  shows "\<exists>l. spatial_prediction hardcoded (example_env u cf sf) (to_pixel_values example_images)
            latents (step_noise hardcoded (example_env u cf sf) latents) = Inr l"
  using assms
  by (simp add: spatial_prediction_def get_spatial_latents_def hardcoded_def example_env_def
      randint_def pv_dims select2_def unsqueeze2_def step_noise_def sample_noise_def)

lemma temporal_quiet:
  assumes "dims5 latents = (1, 3, 16, 8, 8)"
  shows "\<exists>l. temporal_prediction (example_env u cf sf) latents
             (step_noise hardcoded (example_env u cf sf) latents) = Inr l"
  using assms
  by (simp add: temporal_prediction_def create_ad_temporal_loss_def decent_def hardcoded_def
       example_env_def randint_def select2_def step_noise_def sample_noise_def)

lemma forward_quiet:
  "\<exists>ls lt. forward hardcoded (example_env u cf sf) (to_pixel_values example_images) ms False
      = Inr (ls, Some lt)"
proof -
  obtain t where t: "tensor_to_vae_latent (to_pixel_values example_images) (\<lambda>t. t) = Inr t"
      "dims5 t = (1, 3, 16, 8, 8)"
    using latents_quiet by blast
  obtain a where a: "spatial_prediction hardcoded (example_env u cf sf) (to_pixel_values example_images)
            t (step_noise hardcoded (example_env u cf sf) t) = Inr a"
    using spatial_quiet [OF t(2)] by blast
  obtain b where b: "temporal_prediction (example_env u cf sf) t
             (step_noise hardcoded (example_env u cf sf) t) = Inr b"
    using temporal_quiet [OF t(2)] by blast
  have v: "vae_encode (example_env u cf sf) = (\<lambda>t. t)" "\<not> cache_latents hardcoded"
    by (simp_all add: example_env_def hardcoded_def)
  show ?thesis
    using t a b v by (simp add: forward_def Let_def)
qed

lemma train_step_hardcoded:
  assumes "forward hardcoded env pv (mask_spatial_lora (mask_draw env) False) False = Inr (ls, Some lt)"
  shows "train_step hardcoded c pv env 0 st =
     then_do (save_checkpoint hardcoded c env
                (after_backprop (mask_spatial_lora (mask_draw env) False) st))
       (validation env)"
proof -
  have h: "train_temporal_lora hardcoded" "spatial_lora_num hardcoded = 1"
    by (simp_all add: hardcoded_def)
  have l: "(\<lambda>s. then_do (validation env s) (logs (Some lt))) = validation env"
    by (rule ext) (simp add: then_do_def logs_def split: outcome.splits)
  show ?thesis
    using assms h
    by (simp add: train_step_def mask_temporal_lora_def Let_def backward_spatial_def
        backward_temporal_def step_schedules_def after_backprop_def l)
qed

lemma example_step:
  "train_step hardcoded c (to_pixel_values example_images) (example_env u cf sf) 0 st =
     then_do (save_checkpoint hardcoded c (example_env u cf sf)
                (after_backprop (u < 0.2) st))
       (validation (example_env u cf sf))"
proof -
  obtain ls lt where f: "forward hardcoded (example_env u cf sf) (to_pixel_values example_images)
      (mask_spatial_lora (mask_draw (example_env u cf sf)) False) False = Inr (ls, Some lt)"
    using forward_quiet by blast
  show ?thesis
    unfolding train_step_hardcoded [OF f]
    by (simp add: mask_spatial_lora_def example_env_def)
qed

lemma quiet_step:
  assumes "c \<noteq> 0"
  shows "\<exists>s. train_step hardcoded c (to_pixel_values example_images) (quiet_env u) 0 st = Normal s
           \<and> (validation_due (global_step st + 1) \<or> samples st \<noteq> None \<longrightarrow> samples s \<noteq> None)"
proof -
  have q: "\<not> save_spatial_raises (quiet_env u)" "\<not> save_temporal_raises (quiet_env u)"
      "\<not> sample_save_raises (quiet_env u)" "\<not> grid_save_raises (quiet_env u)"
    by (simp_all add: quiet_env_def example_env_def)
  have h: "train_temporal_lora hardcoded" "spatial_lora_num hardcoded = 1"
    by (simp_all add: hardcoded_def)
  have "train_step hardcoded c (to_pixel_values example_images) (quiet_env u) 0 st =
     then_do (save_checkpoint hardcoded c (quiet_env u) (after_backprop (u < 0.2) st))
       (validation (quiet_env u))"
    unfolding quiet_env_def by (rule example_step)
  then show ?thesis
    using assms q h
    by (simp add: save_checkpoint_def validation_def validation_due_def after_backprop_def
        scaler_update_def emit_def Let_def)
qed

lemma quiet_run:
  assumes "c \<noteq> 0" and "\<forall>n. \<exists>u. E n = quiet_env u"
  shows "\<exists>s. epoch_loop hardcoded m c (to_pixel_values example_images) E epochs st = Normal s"
proof (induction epochs arbitrary: st)
  case Nil
  show ?case by simp
next
  case (Cons x xs)
  obtain u where u: "E (nat (global_step st)) = quiet_env u"
    using assms(2) by blast
  obtain s1 where "train_step hardcoded c (to_pixel_values example_images) (quiet_env u) 0 st = Normal s1"
    using quiet_step [OF assms(1)] by blast
  then show ?case
    using Cons [of s1] u by (simp add: epoch_loop_Cons del: epoch_loop.simps)
qed

lemma select2_error: "select2 t i = Inl e \<Longrightarrow> e = IndexError"
  by (auto simp add: select2_def split: prod.splits if_splits)

lemma select1_error: "select1 t i = Inl e \<Longrightarrow> e = IndexError"
  by (auto simp add: select1_def split: prod.splits if_splits)

lemma randint_error: "randint a b r = Inl e \<Longrightarrow> e = RuntimeError"
  by (auto simp add: randint_def split: if_splits)

lemma tensor_to_vae_latent_error:
  "tensor_to_vae_latent t v = Inl e \<Longrightarrow> e = EinopsError \<or> e = ZeroDivisionError"
  by (auto simp add: tensor_to_vae_latent_def split_bf_def Let_def split: sum.splits prod.splits if_splits)

lemma decent_error: "decent t i = Inl e \<Longrightarrow> e = IndexError"
  by (auto simp add: decent_def split: sum.splits dest: select2_error)

lemma create_ad_temporal_loss_error:
  "create_ad_temporal_loss p l t r = Inl e \<Longrightarrow> e = RuntimeError \<or> e = IndexError"
  by (auto simp add: create_ad_temporal_loss_def Let_def split: sum.splits
      dest: randint_error decent_error)

lemma get_spatial_latents_error:
  assumes "get_spatial_latents pv rh cl nl tg ts an raw u g = Inl e"
  shows "e = RuntimeError \<or> e = IndexError
         \<or> (e = NameError \<and> u < real_of_int rh \<and> \<not> cl)"
  using assms
  by (auto simp add: get_spatial_latents_def Let_def split: sum.splits if_splits
      dest: randint_error select2_error select1_error)

lemma spatial_prediction_error:
  assumes "spatial_prediction S env pv lat noise = Inl e"
  shows "e = RuntimeError \<or> e = IndexError
         \<or> (e = NameError \<and> hflip_draw env < real_of_int (random_hflip_img S)
               \<and> \<not> cache_latents S)"
proof (cases "get_spatial_latents pv (random_hflip_img S) (cache_latents S)
                (add_noise_spatial env lat noise (timesteps_draw env)) noise (timesteps_draw env)
                (add_noise_spatial env) (spatial_raw env) (hflip_draw env) (hflip_gauss env)")
  case (Inl e')
  then have "e' = e" using assms by (simp add: spatial_prediction_def Let_def)
  then show ?thesis using get_spatial_latents_error [OF Inl] by simp
next
  case (Inr r)
  then show ?thesis
    using assms
    by (auto simp add: spatial_prediction_def Let_def
        split: sum.splits if_splits prod.splits latent.splits dest: select2_error)
qed

lemma temporal_prediction_error:
  "temporal_prediction env lat noise = Inl e \<Longrightarrow> e = RuntimeError \<or> e = IndexError"
  by (auto simp add: temporal_prediction_def Let_def dest: create_ad_temporal_loss_error)

lemma map_sum_id_Inl [simp]: "map_sum id f x = Inl e \<longleftrightarrow> x = Inl e"
  by (cases x) auto

lemma forward_error:
  assumes "forward S env pv ms mt = Inl e"
  shows "e = EinopsError \<or> e = ZeroDivisionError \<or> e = RuntimeError \<or> e = IndexError
         \<or> (e = NameError \<and> hflip_draw env < real_of_int (random_hflip_img S)
               \<and> \<not> cache_latents S)"
  using assms
  by (auto simp add: forward_def Let_def split: sum.splits if_splits
      dest: tensor_to_vae_latent_error spatial_prediction_error temporal_prediction_error)

lemma backward_spatial_error: "backward_spatial S env step ms st = Raised e s \<Longrightarrow> e = IndexError"
  by (auto simp add: backward_spatial_def Let_def split: if_splits)

lemma step_schedules_error: "step_schedules S step st = Raised e s \<Longrightarrow> e = IndexError"
  by (auto simp add: step_schedules_def split: if_splits)

lemma save_checkpoint_error:
  "save_checkpoint S c env st = Raised e s \<Longrightarrow>
     e = ZeroDivisionError \<or> e = UnboundLocalError
     \<or> (e = OSError \<and> global_step s = global_step st
          \<and> (save_spatial_raises env \<or> save_temporal_raises env))"
  by (auto simp add: save_checkpoint_def emit_def split: if_splits)

lemma validation_error:
  "validation env st = Raised e s \<Longrightarrow>
     e = OSError \<and> global_step s = global_step st
       \<and> (sample_save_raises env \<or> grid_save_raises env)"
  by (auto simp add: validation_def Let_def emit_def split: if_splits)

lemma logs_error: "logs l st = Raised e s \<Longrightarrow> e = AttributeError"
  by (auto simp add: logs_def split: option.splits)

lemma save_checkpoint_global_step:
  "global_step (final_state (save_checkpoint S c env st)) = global_step st"
  using save_checkpoint_counters [of S c env st] by (simp add: counters_def)

lemma train_step_error:
  assumes "train_step S c pv env step st = Raised e s"
  shows "forward S env pv (mask_spatial_lora (mask_draw env)
             (mask_temporal_lora (train_temporal_lora S)))
             (mask_temporal_lora (train_temporal_lora S)) = Inl e
         \<or> e = IndexError \<or> e = ZeroDivisionError \<or> e = UnboundLocalError
         \<or> e = AttributeError
         \<or> (e = OSError \<and> global_step s = global_step st + 1
              \<and> (save_spatial_raises env \<or> save_temporal_raises env
                   \<or> sample_save_raises env \<or> grid_save_raises env))"
proof -
  define mt where "mt = mask_temporal_lora (train_temporal_lora S)"
  define ms where "ms = mask_spatial_lora (mask_draw env) mt"
  show ?thesis
  proof (cases "forward S env pv ms mt")
    case (Inl e')
    then have "train_step S c pv env step st = Raised e' st"
      by (simp add: train_step_def ms_def mt_def Let_def)
    then show ?thesis using assms Inl by (simp add: ms_def mt_def)
  next
    case (Inr p)
    obtain lsp ltm where p: "p = (lsp, ltm)" by (cases p)
    have ts: "train_step S c pv env step st =
        then_do (backward_spatial S env step ms st) (\<lambda>s.
        then_do (backward_temporal S mt s) (\<lambda>s.
        then_do (step_schedules S step s) (\<lambda>s.
        then_do (save_checkpoint S c env (scaler_update s)) (\<lambda>s.
        then_do (validation env s) (\<lambda>s. logs ltm s)))))"
      using Inr p by (simp add: train_step_def ms_def mt_def Let_def)
    show ?thesis
    proof (cases "backward_spatial S env step ms st")
      case (Raised e1 s1)
      then show ?thesis using ts assms backward_spatial_error [OF Raised] by simp
    next
      case (Normal s1)
      then have c1: "counters s1 = counters st"
        using backward_spatial_counters [of S env step ms st] by simp
      obtain s2 where s2: "backward_temporal S mt s1 = Normal s2" "counters s2 = counters s1"
        using backward_temporal_counters by blast
      show ?thesis
      proof (cases "step_schedules S step s2")
        case (Raised e3 s3)
        then show ?thesis using ts assms Normal s2 step_schedules_error [OF Raised] by simp
      next
        case Normal3: (Normal s3)
        have "counters s3 = (case counters st of (g, u, ls, lt) \<Rightarrow>
                     (g, u, Suc ls, (if train_temporal_lora S then Suc lt else lt)))"
          using step_schedules_Normal [OF Normal3] c1 s2 by simp
        then have g3: "global_step (scaler_update s3) = global_step st + 1"
          by (simp add: counters_def scaler_update_def emit_def)
        show ?thesis
        proof (cases "save_checkpoint S c env (scaler_update s3)")
          case (Raised e4 s4)
          then show ?thesis
            using ts assms Normal s2 Normal3 g3 save_checkpoint_error [OF Raised] by auto
        next
          case Normal4: (Normal s4)
          then have g4: "global_step s4 = global_step st + 1"
            using save_checkpoint_global_step [of S c env "scaler_update s3"] g3 by simp
          show ?thesis
          proof (cases "validation env s4")
            case (Raised e5 s5)
            then show ?thesis
              using ts assms Normal s2 Normal3 Normal4 g4 validation_error [OF Raised] by auto
          next
            case Normal5: (Normal s5)
            then have "logs ltm s5 = Raised e s"
              using ts assms Normal s2 Normal3 Normal4 by simp
            then show ?thesis using logs_error by blast
          qed
        qed
      qed
    qed
  qed
qed

lemma prefix_emit: "prefix (trace st) (trace (emit ev st))"
  by (simp add: emit_def)

lemma backward_spatial_prefix:
  "prefix (trace st) (trace (final_state (backward_spatial S env step ms st)))"
  by (simp add: backward_spatial_def Let_def emit_def)

lemma backward_temporal_prefix:
  "prefix (trace st) (trace (final_state (backward_temporal S mt st)))"
  by (simp add: backward_temporal_def emit_def)

lemma step_schedules_prefix:
  "prefix (trace st) (trace (final_state (step_schedules S step st)))"
  by (simp add: step_schedules_def emit_def)

lemma save_checkpoint_prefix:
  "prefix (trace st) (trace (final_state (save_checkpoint S c env st)))"
  by (simp add: save_checkpoint_def emit_def)

lemma validation_prefix:
  "prefix (trace st) (trace (final_state (validation env st)))"
  by (simp add: validation_def Let_def emit_def)

lemma logs_prefix: "prefix (trace st) (trace (final_state (logs l st)))"
  by (simp add: logs_def split: option.splits)

lemma then_do_prefix:
  assumes "prefix (trace st) (trace (final_state r))"
      and "\<And>s. prefix (trace s) (trace (final_state (f s)))"
  shows "prefix (trace st) (trace (final_state (then_do r f)))"
proof (cases r)
  case (Normal s)
  then show ?thesis
    using assms(1) assms(2) [of s] by (auto intro: prefix_order.order_trans)
next
  case (Raised e s)
  then show ?thesis using assms(1) by simp
qed

lemma train_step_prefix:
  "prefix (trace st) (trace (final_state (train_step S c pv env step st)))"
proof -
  define mt where "mt = mask_temporal_lora (train_temporal_lora S)"
  define ms where "ms = mask_spatial_lora (mask_draw env) mt"
  show ?thesis
  proof (cases "forward S env pv ms mt")
    case (Inl e')
    then have "train_step S c pv env step st = Raised e' st"
      by (simp add: train_step_def ms_def mt_def Let_def)
    then show ?thesis by simp
  next
    case (Inr p)
    obtain lsp ltm where p: "p = (lsp, ltm)" by (cases p)
    have ts: "train_step S c pv env step st =
        then_do (backward_spatial S env step ms st) (\<lambda>s.
        then_do (backward_temporal S mt s) (\<lambda>s.
        then_do (step_schedules S step s) (\<lambda>s.
        then_do (save_checkpoint S c env (scaler_update s)) (\<lambda>s.
        then_do (validation env s) (\<lambda>s. logs ltm s)))))"
      using Inr p by (simp add: train_step_def ms_def mt_def Let_def)
    have su: "\<And>s. prefix (trace s) (trace (final_state (save_checkpoint S c env (scaler_update s))))"
    proof -
      fix s
      have "prefix (trace s) (trace (scaler_update s))"
        by (simp add: scaler_update_def emit_def)
      then show "prefix (trace s) (trace (final_state (save_checkpoint S c env (scaler_update s))))"
        using save_checkpoint_prefix [of "scaler_update s" S c env]
        by (auto intro: prefix_order.order_trans)
    qed
    show ?thesis
      unfolding ts
      by (intro then_do_prefix backward_spatial_prefix backward_temporal_prefix
          step_schedules_prefix su validation_prefix logs_prefix)
  qed
qed

lemma epoch_loop_prefix:
  "prefix (trace st) (trace (final_state (epoch_loop S m c pv E epochs st)))"
proof (induction epochs arbitrary: st)
  case Nil
  show ?case by simp
next
  case (Cons x xs)
  show ?case
    unfolding epoch_loop_Cons
    by (intro then_do_prefix train_step_prefix Cons.IH)
qed

lemma quiet_step_samples:
  assumes "c \<noteq> 0" and "samples_bound st"
  shows "\<exists>s. train_step hardcoded c (to_pixel_values example_images) (quiet_env u) 0 st = Normal s
           \<and> samples_bound s"
proof -
  obtain s where s: "train_step hardcoded c (to_pixel_values example_images) (quiet_env u) 0 st = Normal s"
     "validation_due (global_step st + 1) \<or> samples st \<noteq> None \<longrightarrow> samples s \<noteq> None"
    using quiet_step [OF assms(1)] by blast
  have g: "global_step s = global_step st + 1"
    using train_step_Normal [OF s(1)] by (simp add: counters_def bump_def)
  have "validation_due 2"
    by (simp add: validation_due_def validation_steps_tuple_def)
  then have "samples_bound s"
    using s(2) g assms(2) by (cases "global_step st = 1") (auto simp add: samples_bound_def)
  then show ?thesis using s(1) by blast
qed

lemma quiet_run_samples:
  assumes "c \<noteq> 0" and "\<forall>n. \<exists>u. E n = quiet_env u"
  shows "samples_bound st \<Longrightarrow>
     \<exists>s. epoch_loop hardcoded m c (to_pixel_values example_images) E epochs st = Normal s
          \<and> samples_bound s"
proof (induction epochs arbitrary: st)
  case Nil
  then show ?case by simp
next
  case (Cons x xs)
  obtain u where u: "E (nat (global_step st)) = quiet_env u"
    using assms(2) by blast
  obtain s1 where "train_step hardcoded c (to_pixel_values example_images) (quiet_env u) 0 st = Normal s1"
      "samples_bound s1"
    using quiet_step_samples [OF assms(1) Cons.prems] by blast
  then show ?case
    using Cons.IH [of s1] u by (simp add: epoch_loop_Cons del: epoch_loop.simps)
qed

lemma process_with_loop:
  assumes "get_training_iteration (max_train_steps inp) (max_train_epoch inp) = Inr m"
      and "get_training_iteration (checkpointing_steps inp) (checkpointing_epochs inp) = Inr c"
  shows "process_with S inp E =
     then_do (epoch_loop S m c (to_pixel_values (images inp)) E [0..<nat m]
                (inject_loras S initial_state))
       (\<lambda>s. case samples s of None \<Rightarrow> Raised UnboundLocalError s | Some v \<Rightarrow> Normal s)"
  using assms by (simp add: process_with_def Let_def num_train_epochs_eq first_epoch_def)

lemma process_with_Normal:
  assumes "process_with S inp E = Normal s"
  shows "\<exists>m c. get_training_iteration (max_train_steps inp) (max_train_epoch inp) = Inr m
           \<and> get_training_iteration (checkpointing_steps inp) (checkpointing_epochs inp) = Inr c
           \<and> epoch_loop S m c (to_pixel_values (images inp)) E [0..<nat m]
                (inject_loras S initial_state) = Normal s"
proof (cases "get_training_iteration (max_train_steps inp) (max_train_epoch inp)")
  case (Inl e)
  then show ?thesis using assms by (simp add: process_with_def Let_def)
next
  case m: (Inr m)
  show ?thesis
  proof (cases "get_training_iteration (checkpointing_steps inp) (checkpointing_epochs inp)")
    case (Inl e)
    then show ?thesis using assms m by (simp add: process_with_def Let_def)
  next
    case c: (Inr c)
    show ?thesis
      using assms unfolding process_with_loop [OF m c]
      by (cases "epoch_loop S m c (to_pixel_values (images inp)) E [0..<nat m]
                (inject_loras S initial_state)")
         (auto simp add: m c split: option.splits)
  qed
qed

lemma process_with_in_step: "in_step S (final_state (process_with S inp E))"
proof (cases "get_training_iteration (max_train_steps inp) (max_train_epoch inp)")
  case (Inl e)
  then show ?thesis
    by (simp add: process_with_def Let_def in_step_def counters_def initial_state_def
        scaler_updates_def lr_steps_def)
next
  case m: (Inr m)
  show ?thesis
  proof (cases "get_training_iteration (checkpointing_steps inp) (checkpointing_epochs inp)")
    case (Inl e)
    then show ?thesis using m
      by (simp add: process_with_def Let_def in_step_def counters_def initial_state_def
        scaler_updates_def lr_steps_def)
  next
    case c: (Inr c)
    have "in_step S (final_state (epoch_loop S m c (to_pixel_values (images inp)) E [0..<nat m]
                (inject_loras S initial_state)))"
      using epoch_loop_in_step [OF inject_loras_in_step] .
    then show ?thesis
      unfolding process_with_loop [OF m c]
      by (cases "epoch_loop S m c (to_pixel_values (images inp)) E [0..<nat m]
                (inject_loras S initial_state)")
         (auto split: option.splits)
  qed
qed

lemma process_quiet:
  assumes "images inp = example_images"
      and "get_training_iteration (max_train_steps inp) (max_train_epoch inp) = Inr m"
      and "get_training_iteration (checkpointing_steps inp) (checkpointing_epochs inp) = Inr c"
      and "c \<noteq> 0" and "2 \<le> m" and "\<forall>n. \<exists>u. E n = quiet_env u"
  shows "\<exists>s. process inp E = Normal s"
proof -
  have "samples_bound (inject_loras hardcoded initial_state)"
    by (simp add: samples_bound_def inject_loras_def initial_state_def)
  then obtain s where s:
    "epoch_loop hardcoded m c (to_pixel_values example_images) E [0..<nat m]
       (inject_loras hardcoded initial_state) = Normal s" "samples_bound s"
    using quiet_run_samples [OF assms(4) assms(6)] by blast
  have "global_step s = global_step (inject_loras hardcoded initial_state) + int (length [0..<nat m])"
    using epoch_loop_Normal_steps [OF s(1)] .
  then have "global_step s = m"
    using assms(5) by (simp add: inject_loras_def initial_state_def)
  then have "samples s \<noteq> None"
    using s(2) assms(5) by (simp add: samples_bound_def)
  then show ?thesis
    using s(1) assms(1)
    unfolding process_def process_with_loop [OF assms(2) assms(3)]
    by (auto split: option.splits)
qed

lemma quiet_run_quiet: "\<forall>n. \<exists>u. quiet_run n = quiet_env u"
  unfolding quiet_run_def by blast

section \<open>The claims\<close>

subsection \<open>Masking of the two roles\<close>

text \<open>
  Claim C1.  The temporal role is masked exactly when temporal training is disabled; the
  spatial role is masked exactly when the uniform draw is below 0.2 and the temporal role is
  not masked; so for every draw and every setting the two masks are never both set, and at
  least one role is active in every step.
\<close>

theorem masks_never_both:
  "mask_temporal_lora train_temporal = (\<not> train_temporal)
   \<and> mask_spatial_lora u (mask_temporal_lora train_temporal)
       = (u < 0.2 \<and> \<not> mask_temporal_lora train_temporal)
   \<and> (mask_spatial_lora u (mask_temporal_lora train_temporal)
        \<and> mask_temporal_lora train_temporal) = False"
  by (simp add: mask_temporal_lora_def mask_spatial_lora_def)

subsection \<open>The decentered temporal loss\<close>

lemma decent_equal:
  assumes "dims5 p = (d0, d1, d2, d3, d4)" and "dims5 t = (d0, d1, d2, d3, d4)"
      and "\<And>i j k l m. i < d0 \<Longrightarrow> j < d1 \<Longrightarrow> k < d2 \<Longrightarrow> l < d3 \<Longrightarrow> m < d4 \<Longrightarrow>
             at5 p i j k l m = at5 t i j k l m"
      and "r < d2"
  shows "\<exists>a b. decent p r = Inr a \<and> decent t r = Inr b \<and> mse_loss5 a b = 0"
  using assms
  by (simp add: decent_def select2_def mse_loss5_def unsqueeze2_def)

text \<open>
  Claim C2.  \<open>beta\<close> is 1 and \<open>alpha\<close> is \<open>sqrt (beta\<^sup>2 + 1)\<close>, the square root of 2.  For a
  prediction and a target that have the same shape and the same elements (tensors with at
  least one element, over the real numbers), the mean squared error between the two
  decentered tensors is 0 for every pivot frame \<open>ran_idx\<close> of the clip, and
  \<^verbatim>\<open>create_ad_temporal_loss\<close> returns its argument \<open>loss_temporal\<close> unchanged for every
  draw of the pivot.
\<close>

theorem decentered_term_vanishes:
  assumes "tensor_eq5 model_pred target"
      and "0 < numel5 model_pred"
      and "ran_idx < shape2 model_pred"
  shows "beta = 1 \<and> alpha = sqrt (beta\<^sup>2 + 1) \<and> alpha = sqrt 2
         \<and> (case (decent model_pred ran_idx, decent target ran_idx) of
               (Inr model_pred_decent, Inr target_decent) \<Rightarrow>
                  mse_loss5 model_pred_decent target_decent = 0
             | _ \<Rightarrow> False)
         \<and> create_ad_temporal_loss model_pred loss_temporal target raw = Inr loss_temporal"
proof -
  obtain d0 d1 d2 d3 d4 where d: "dims5 model_pred = (d0, d1, d2, d3, d4)"
    by (cases "dims5 model_pred") auto
  from assms(1) d have dt: "dims5 target = (d0, d1, d2, d3, d4)"
    by (simp add: tensor_eq5_def)
  from assms(1) d have el: "\<And>i j k l m. i < d0 \<Longrightarrow> j < d1 \<Longrightarrow> k < d2 \<Longrightarrow> l < d3 \<Longrightarrow> m < d4 \<Longrightarrow>
      at5 model_pred i j k l m = at5 target i j k l m"
    by (simp add: tensor_eq5_def)
  from assms(3) d have r2: "ran_idx < d2" by simp
  then have "0 < shape2 model_pred" using d by simp
  then obtain r where r: "randint 0 (shape2 model_pred) raw = Inr r" "r < d2"
    using randint_lt [of 0 "shape2 model_pred" raw] d by auto
  obtain a b where ab: "decent model_pred r = Inr a" "decent target r = Inr b" "mse_loss5 a b = 0"
    using decent_equal [OF d dt el r(2)] by blast
  obtain a' b' where ab': "decent model_pred ran_idx = Inr a'" "decent target ran_idx = Inr b'"
      "mse_loss5 a' b' = 0"
    using decent_equal [OF d dt el r2] by blast
  have "create_ad_temporal_loss model_pred loss_temporal target raw = Inr loss_temporal"
    using r(1) ab by (simp add: create_ad_temporal_loss_def)
  moreover have "alpha = sqrt 2" by (rule alpha_sqrt2)
  moreover have "beta = 1" by (simp add: beta_def)
  ultimately show ?thesis using ab' by simp
qed

theorem decentered_term_vanishes_witness:
  "tensor_eq5 example_pred example_target \<and> 0 < numel5 example_pred
   \<and> 1 < shape2 example_pred
   \<and> create_ad_temporal_loss example_pred 3 example_target 5 = Inr 3"
proof -
  have h1: "tensor_eq5 example_pred example_target"
    by (simp add: tensor_eq5_def example_pred_def example_target_def)
  have h2: "0 < numel5 example_pred"
    by (simp add: numel5_def example_pred_def)
  have h3: "1 < shape2 example_pred"
    by (simp add: example_pred_def)
  show ?thesis
    using h1 h2 h3 decentered_term_vanishes [OF h1 h2 h3, of 3 5] by simp
qed

subsection \<open>The frame index of the spatial branch\<close>

text \<open>
  Claim C6 says that the upper bound of the draw of \<open>ran_idx\<close> is the number of frames of
  the clip.  The clip is laid out as (batch, frames, channels, height, width), and the bound
  is \<^verbatim>\<open>pixel_values.shape[2]\<close>: for sixteen RGB frames the clip has 16 frames and the bound is
  3, the number of channels, so the draw 15 selects frame 0; for two RGB frames the draw 2
  selects frame 2, which the latents do not have.
\<close>

theorem spatial_index_bounded_by_channels:
  "shape1 (to_pixel_values example_images) = 16
   \<and> shape2 (to_pixel_values example_images) = 3
   \<and> randint 0 (shape2 (to_pixel_values example_images)) 15 = Inr 0
   \<and> get_spatial_latents (to_pixel_values two_frame_images) (- 1) False
        two_frame_latents two_frame_latents [0] (\<lambda>latents noise ts. latents) 2 (1 / 2)
        (\<lambda>i j k l m. 0) = Inl IndexError"
  by (simp add: to_pixel_values_def example_images_def two_frame_images_def two_frame_latents_def
      unsqueeze0_def permute_0312_def normalize_def randint_def get_spatial_latents_def
      select2_def)

subsection \<open>Offset noise\<close>



subsection \<open>The flipped branch of the spatial prediction\<close>

lemma hardcoded_hflip: "random_hflip_img hardcoded = - 1"
  by (simp add: hardcoded_def)

lemma train_step_not_NameError:
  assumes "0 \<le> hflip_draw env"
  shows "train_step hardcoded c pv env step st \<noteq> Raised NameError s"
proof
  assume "train_step hardcoded c pv env step st = Raised NameError s"
  then have "forward hardcoded env pv (mask_spatial_lora (mask_draw env)
             (mask_temporal_lora (train_temporal_lora hardcoded)))
             (mask_temporal_lora (train_temporal_lora hardcoded)) = Inl NameError"
    using train_step_error by fastforce
  then have "hflip_draw env < real_of_int (random_hflip_img hardcoded)"
    using forward_error by fastforce
  then show False using assms by (simp add: hardcoded_hflip)
qed

lemma epoch_loop_not_NameError:
  assumes "\<forall>n. 0 \<le> hflip_draw (E n)"
  shows "epoch_loop hardcoded m c pv E epochs st \<noteq> Raised NameError s"
proof (induction epochs arbitrary: st)
  case Nil
  show ?case by simp
next
  case (Cons x xs)
  show ?case
  proof (cases "train_step hardcoded c pv (E (nat (global_step st))) 0 st")
    case (Normal s1)
    then show ?thesis using Cons.IH [of s1] by (simp add: epoch_loop_Cons del: epoch_loop.simps)
  next
    case (Raised e s1)
    then have "e \<noteq> NameError"
      using train_step_not_NameError assms by blast
    then show ?thesis using Raised by (simp add: epoch_loop_Cons del: epoch_loop.simps)
  qed
qed

lemma process_not_NameError:
  assumes "\<forall>n. 0 \<le> hflip_draw (E n)"
  shows "process inp E \<noteq> Raised NameError s"
proof (cases "get_training_iteration (max_train_steps inp) (max_train_epoch inp)")
  case (Inl e)
  then show ?thesis
    by (auto simp add: process_def process_with_def Let_def get_training_iteration_def
        split: if_splits)
next
  case m: (Inr m)
  show ?thesis
  proof (cases "get_training_iteration (checkpointing_steps inp) (checkpointing_epochs inp)")
    case (Inl e)
    then show ?thesis using m
      by (auto simp add: process_def process_with_def Let_def get_training_iteration_def
          split: if_splits)
  next
    case c: (Inr c)
    show ?thesis
      unfolding process_def process_with_loop [OF m c]
      using epoch_loop_not_NameError [OF assms, of m c "to_pixel_values (images inp)" "[0..<nat m]"
          "inject_loras hardcoded initial_state"]
      by (cases "epoch_loop hardcoded m c (to_pixel_values (images inp)) E [0..<nat m]
                (inject_loras hardcoded initial_state)")
         (auto split: option.splits)
  qed
qed

lemma get_spatial_latents_sliced:
  assumes "real_of_int rh \<le> u"
  shows "get_spatial_latents pv rh cl nl tg ts an raw u g =
     (case randint 0 (shape2 pv) raw of
        Inl e \<Rightarrow> Inl e
      | Inr ran_idx \<Rightarrow>
          (case select2 nl ran_idx of
             Inl e \<Rightarrow> Inl e
           | Inr noisy_latents_input \<Rightarrow>
               (case select2 tg ran_idx of
                  Inl e \<Rightarrow> Inl e
                | Inr target_spatial \<Rightarrow>
                    Inr (Frame noisy_latents_input, Frame target_spatial, False))))"
  using assms by (simp add: get_spatial_latents_def split: sum.splits)

text \<open>
  Claim C10.  \<^verbatim>\<open>process\<close> sets \<^verbatim>\<open>random_hflip_img\<close> to -1.  When every uniform draw of the
  flip decision lies in [0, 1], \<^verbatim>\<open>use_hflip\<close> is false in every call of
  \<^verbatim>\<open>get_spatial_latents\<close> by the node: the call slices the shared noised latents and the
  shared target at \<open>ran_idx\<close>, and no run of the node raises the \<open>NameError\<close> of the
  undefined name \<^verbatim>\<open>vae\<close> in the flipped branch.
\<close>

theorem hflip_branch_unreachable:
  assumes "\<forall>n. 0 \<le> hflip_draw (E n) \<and> hflip_draw (E n) \<le> 1"
  shows "random_hflip_img hardcoded = - 1
     \<and> get_spatial_latents pixel_values (random_hflip_img hardcoded) (cache_latents hardcoded)
          noisy_latents target ts add_noise raw (hflip_draw (E n)) gauss =
         (case randint 0 (shape2 pixel_values) raw of
            Inl e \<Rightarrow> Inl e
          | Inr ran_idx \<Rightarrow>
              (case select2 noisy_latents ran_idx of
                 Inl e \<Rightarrow> Inl e
               | Inr noisy_latents_input \<Rightarrow>
                   (case select2 target ran_idx of
                      Inl e \<Rightarrow> Inl e
                    | Inr target_spatial \<Rightarrow>
                        Inr (Frame noisy_latents_input, Frame target_spatial, False))))
     \<and> process inp E \<noteq> Raised NameError s"
proof -
  have "real_of_int (random_hflip_img hardcoded) \<le> hflip_draw (E n)"
    using assms by (simp add: hardcoded_hflip) (smt (verit) assms)
  then show ?thesis
    using get_spatial_latents_sliced process_not_NameError assms hardcoded_hflip by simp
qed

theorem hflip_branch_unreachable_witness:
  "(\<forall>n. 0 \<le> hflip_draw (quiet_run n) \<and> hflip_draw (quiet_run n) \<le> 1)
   \<and> process default_inputs quiet_run \<noteq> Raised NameError initial_state"
proof -
  have h: "\<forall>n. 0 \<le> hflip_draw (quiet_run n) \<and> hflip_draw (quiet_run n) \<le> 1"
    by (simp add: quiet_run_def quiet_env_def example_env_def)
  show ?thesis
    using h hflip_branch_unreachable [OF h] by simp
qed

subsection \<open>Counting the calls of a step\<close>

lemma scaler_steps_emit:
  "scaler_steps (trace (emit ev s)) = (if is_scaler_step ev then Suc (scaler_steps (trace s)) else scaler_steps (trace s))"
  by (simp add: scaler_steps_def emit_def)

lemma backward_spatial_scaler_steps:
  "scaler_steps (trace (final_state (backward_spatial S env step ms st)))
     \<le> scaler_steps (trace st) + 1"
  by (simp add: backward_spatial_def Let_def scaler_steps_emit)

lemma backward_temporal_scaler_steps:
  "\<exists>s. backward_temporal S mt st = Normal s
       \<and> scaler_steps (trace s) \<le> scaler_steps (trace st) + 1"
  by (simp add: backward_temporal_def scaler_steps_emit)

lemma step_schedules_scaler_steps:
  "scaler_steps (trace (final_state (step_schedules S step st))) = scaler_steps (trace st)"
  by (simp add: step_schedules_def scaler_steps_emit)

lemma scaler_update_scaler_steps:
  "scaler_steps (trace (scaler_update st)) = scaler_steps (trace st)"
  by (simp add: scaler_update_def scaler_steps_def emit_def)

lemma save_checkpoint_scaler_steps:
  "scaler_steps (trace (final_state (save_checkpoint S c env st))) = scaler_steps (trace st)"
  by (simp add: save_checkpoint_def scaler_steps_emit)

lemma validation_scaler_steps:
  "scaler_steps (trace (final_state (validation env st))) = scaler_steps (trace st)"
  by (simp add: validation_def Let_def scaler_steps_def emit_def)

lemma logs_scaler_steps:
  "scaler_steps (trace (final_state (logs l st))) = scaler_steps (trace st)"
  by (simp add: logs_def split: option.splits)

lemma train_step_scaler_steps:
  assumes "train_step S c pv env step st = Normal s"
  shows "scaler_steps (trace s) \<le> scaler_steps (trace st) + 2"
proof -
  define mt where "mt = mask_temporal_lora (train_temporal_lora S)"
  define ms where "ms = mask_spatial_lora (mask_draw env) mt"
  show ?thesis
  proof (cases "forward S env pv ms mt")
    case (Inl e')
    then have "train_step S c pv env step st = Raised e' st"
      by (simp add: train_step_def ms_def mt_def Let_def)
    then show ?thesis using assms by simp
  next
    case (Inr p)
    obtain lsp ltm where p: "p = (lsp, ltm)" by (cases p)
    have ts: "train_step S c pv env step st =
        then_do (backward_spatial S env step ms st) (\<lambda>s.
        then_do (backward_temporal S mt s) (\<lambda>s.
        then_do (step_schedules S step s) (\<lambda>s.
        then_do (save_checkpoint S c env (scaler_update s)) (\<lambda>s.
        then_do (validation env s) (\<lambda>s. logs ltm s)))))"
      using Inr p by (simp add: train_step_def ms_def mt_def Let_def)
    show ?thesis
    proof (cases "backward_spatial S env step ms st")
      case (Raised e1 s1)
      then show ?thesis using ts assms by simp
    next
      case (Normal s1)
      then have b1: "scaler_steps (trace s1) \<le> scaler_steps (trace st) + 1"
        using backward_spatial_scaler_steps [of S env step ms st] by simp
      obtain s2 where s2: "backward_temporal S mt s1 = Normal s2"
          "scaler_steps (trace s2) \<le> scaler_steps (trace s1) + 1"
        using backward_temporal_scaler_steps by blast
      show ?thesis
      proof (cases "step_schedules S step s2")
        case (Raised e3 s3)
        then show ?thesis using ts assms Normal s2 by simp
      next
        case Normal3: (Normal s3)
        then have b3: "scaler_steps (trace (scaler_update s3)) = scaler_steps (trace s2)"
          using step_schedules_scaler_steps [of S step s2]
          by (simp add: scaler_update_scaler_steps)
        show ?thesis
        proof (cases "save_checkpoint S c env (scaler_update s3)")
          case (Raised e4 s4)
          then show ?thesis using ts assms Normal s2 Normal3 by simp
        next
          case Normal4: (Normal s4)
          then have b4: "scaler_steps (trace s4) = scaler_steps (trace s2)"
            using save_checkpoint_scaler_steps [of S c env "scaler_update s3"] b3 by simp
          show ?thesis
          proof (cases "validation env s4")
            case (Raised e5 s5)
            then show ?thesis using ts assms Normal s2 Normal3 Normal4 by simp
          next
            case Normal5: (Normal s5)
            then have b5: "scaler_steps (trace s5) = scaler_steps (trace s2)"
              using validation_scaler_steps [of env s4] b4 by simp
            have "logs ltm s5 = Normal s"
              using ts assms Normal s2 Normal3 Normal4 Normal5 by simp
            then have "scaler_steps (trace s) = scaler_steps (trace s2)"
              using logs_scaler_steps [of ltm s5] b5 by simp
            then show ?thesis using b1 s2(2) by simp
          qed
        qed
      qed
    qed
  qed
qed

lemma start_state_eq:
  "start_state =
     \<lparr>global_step = 0,
      trace = [AddLora Temporal 0 32, AddLora Spatial (1 / 10) 32],
      samples = None\<rparr>"
  by (simp add: start_state_def inject_loras_def initial_state_def hardcoded_def)

lemma first_step:
  "train_step hardcoded 100 (to_pixel_values example_images) (example_env u cf sf) 0 start_state
     = Normal (after_backprop (u < 0.2) start_state)"
  unfolding example_step
  by (simp add: start_state_eq save_checkpoint_def validation_def after_backprop_def
      scaler_update_def emit_def validation_steps_def validation_steps_tuple_def)

lemma process_with_scaler_updates:
  "scaler_updates (trace (final_state (process_with S inp E)))
     = nat (global_step (final_state (process_with S inp E)))"
  using process_with_in_step [of S inp E]
  by (auto simp add: in_step_def counters_def)

subsection \<open>The gradient scaler\<close>

text \<open>
  Claim C4.  There is one gradient scaler; both roles' backward passes and optimizer steps go
  through it.  A pass through the loop body that completes calls \<^verbatim>\<open>scaler.update()\<close> exactly
  once, whatever the masks are and however many of the at most two \<^verbatim>\<open>scaler.step\<close> calls
  it made; and at the end of every run, completed or aborted, the number of
  \<^verbatim>\<open>scaler.update()\<close> calls is the number of global steps.
\<close>

theorem scaler_update_once_per_step:
  "(train_step S c pv env step st = Normal s \<longrightarrow>
      scaler_updates (trace s) = scaler_updates (trace st) + 1
      \<and> scaler_steps (trace s) \<le> scaler_steps (trace st) + 2)
   \<and> scaler_updates (trace (final_state (process_with S inp E)))
       = nat (global_step (final_state (process_with S inp E)))"
  using train_step_Normal [of S c pv env step st s] train_step_scaler_steps [of S c pv env step st s]
    process_with_scaler_updates [of S inp E]
  by (auto simp add: counters_def bump_def)

theorem scaler_update_once_per_step_witness:
  "train_step hardcoded 100 (to_pixel_values example_images) (quiet_env (1 / 10)) 0 start_state
     = Normal (after_backprop True start_state)
   \<and> scaler_steps (trace (after_backprop True start_state)) = 1
   \<and> scaler_updates (trace (after_backprop True start_state)) = 1
   \<and> train_step hardcoded 100 (to_pixel_values example_images) (quiet_env (1 / 2)) 0 start_state
     = Normal (after_backprop False start_state)
   \<and> scaler_steps (trace (after_backprop False start_state)) = 2
   \<and> scaler_updates (trace (after_backprop False start_state)) = 1"
proof -
  have a: "train_step hardcoded 100 (to_pixel_values example_images) (quiet_env (1 / 10)) 0
      start_state = Normal (after_backprop True start_state)"
    using first_step [of "1 / 10" False False] by (simp add: quiet_env_def)
  have b: "train_step hardcoded 100 (to_pixel_values example_images) (quiet_env (1 / 2)) 0
      start_state = Normal (after_backprop False start_state)"
    using first_step [of "1 / 2" False False] by (simp add: quiet_env_def)
  have u0: "scaler_updates (trace start_state) = 0"
    by (simp add: start_state_eq scaler_updates_def)
  have s1: "scaler_steps (trace (after_backprop True start_state)) = 1"
    by (simp add: start_state_eq after_backprop_def scaler_update_def emit_def scaler_steps_def)
  have s2: "scaler_steps (trace (after_backprop False start_state)) = 2"
    by (simp add: start_state_eq after_backprop_def scaler_update_def emit_def scaler_steps_def)
  show ?thesis
    using a b u0 s1 s2
      scaler_update_once_per_step [of hardcoded 100 "to_pixel_values example_images"
        "quiet_env (1 / 10)" 0 start_state "after_backprop True start_state"]
      scaler_update_once_per_step [of hardcoded 100 "to_pixel_values example_images"
        "quiet_env (1 / 2)" 0 start_state "after_backprop False start_state"]
    by simp
qed

lemma process_with_Normal_counts:
  assumes "process_with S inp E = Normal s"
      and "get_training_iteration (max_train_steps inp) (max_train_epoch inp) = Inr m"
  shows "global_step s = int (nat m) \<and> scaler_updates (trace s) = nat m
         \<and> lr_steps Spatial (trace s) = nat m
         \<and> lr_steps Temporal (trace s) = (if train_temporal_lora S then nat m else 0)"
proof -
  obtain m' c where l: "get_training_iteration (max_train_steps inp) (max_train_epoch inp) = Inr m'"
     "epoch_loop S m' c (to_pixel_values (images inp)) E [0..<nat m']
                (inject_loras S initial_state) = Normal s"
    using process_with_Normal [OF assms(1)] by blast
  then have m': "m' = m" using assms(2) by simp
  have "global_step s = global_step (inject_loras S initial_state) + int (length [0..<nat m'])"
    using epoch_loop_Normal_steps [OF l(2)] .
  then have g: "global_step s = int (nat m)"
    using m' by (simp add: inject_loras_def initial_state_def)
  have "in_step S s"
    using process_with_in_step [of S inp E] assms(1) by simp
  then have i: "global_step s = int (scaler_updates (trace s))"
      "lr_steps Spatial (trace s) = scaler_updates (trace s)"
      "lr_steps Temporal (trace s)
         = (if train_temporal_lora S then scaler_updates (trace s) else 0)"
    by (simp_all add: in_step_def counters_def)
  from i(1) g have "int (scaler_updates (trace s)) = int (nat m)"
    by (simp only:)
  then have u: "scaler_updates (trace s) = nat m"
    by (simp only: of_nat_eq_iff)
  show ?thesis
    unfolding i(2) i(3) u using g by (simp only: simp_thms)
qed

subsection \<open>The learning-rate schedules\<close>

text \<open>
  Claim C5.  Every pass through the loop body that completes steps the spatial schedule once
  and, when temporal training is enabled, the temporal schedule once, whatever the masks
  are; after a run that returns, with the step budget \<open>m\<close>, each of them has been stepped
  exactly \<open>m\<close> times (for a budget that is not negative, as the inputs of the node are).
\<close>

theorem schedules_advance_every_step:
  "(train_step S c pv env step st = Normal s' \<longrightarrow>
      lr_steps Spatial (trace s') = lr_steps Spatial (trace st) + 1
      \<and> lr_steps Temporal (trace s')
          = lr_steps Temporal (trace st) + (if train_temporal_lora S then 1 else 0))
   \<and> (process_with S inp E = Normal s
       \<and> get_training_iteration (max_train_steps inp) (max_train_epoch inp) = Inr m \<longrightarrow>
         global_step s = int (nat m)
         \<and> lr_steps Spatial (trace s) = nat m
         \<and> lr_steps Temporal (trace s) = (if train_temporal_lora S then nat m else 0))"
  using train_step_Normal [of S c pv env step st s'] process_with_Normal_counts [of S inp E s m]
  by (auto simp add: counters_def bump_def)

lemma default_iteration:
  "get_training_iteration (max_train_steps default_inputs) (max_train_epoch default_inputs) = Inr 300"
  "get_training_iteration (checkpointing_steps default_inputs) (checkpointing_epochs default_inputs) = Inr 100"
  by (simp_all add: default_inputs_def get_training_iteration_def)

lemma process_default_quiet:
  "process default_inputs quiet_run = Normal (final_state (process default_inputs quiet_run))"
proof -
  have "images default_inputs = example_images" by (simp add: default_inputs_def)
  then obtain s where "process default_inputs quiet_run = Normal s"
    using process_quiet [OF _ default_iteration _ _ quiet_run_quiet] by auto
  then show ?thesis by simp
qed

theorem schedules_advance_every_step_witness:
  "train_step hardcoded 100 (to_pixel_values example_images) (quiet_env (1 / 10)) 0 start_state
     = Normal (after_backprop True start_state)
   \<and> Backward Spatial \<notin> set (trace (after_backprop True start_state))
   \<and> lr_steps Spatial (trace (after_backprop True start_state)) = 1
   \<and> lr_steps Temporal (trace (after_backprop True start_state)) = 1
   \<and> process default_inputs quiet_run = Normal (final_state (process default_inputs quiet_run))
   \<and> get_training_iteration (max_train_steps default_inputs) (max_train_epoch default_inputs)
       = Inr 300
   \<and> global_step (final_state (process default_inputs quiet_run)) = 300
   \<and> lr_steps Spatial (trace (final_state (process default_inputs quiet_run))) = 300
   \<and> lr_steps Temporal (trace (final_state (process default_inputs quiet_run))) = 300"
proof -
  have a: "train_step hardcoded 100 (to_pixel_values example_images) (quiet_env (1 / 10)) 0
      start_state = Normal (after_backprop True start_state)"
    using first_step [of "1 / 10" False False] by (simp add: quiet_env_def)
  have n: "Backward Spatial \<notin> set (trace (after_backprop True start_state))"
    by (simp add: start_state_eq after_backprop_def scaler_update_def emit_def)
  have l0: "lr_steps Spatial (trace start_state) = 0" "lr_steps Temporal (trace start_state) = 0"
    by (simp_all add: start_state_eq lr_steps_def)
  have t: "train_temporal_lora hardcoded" by (simp add: hardcoded_def)
  have p: "process_with hardcoded default_inputs quiet_run
             = Normal (final_state (process default_inputs quiet_run))"
    using process_default_quiet by (simp add: process_def)
  show ?thesis
    using a n l0 t p default_iteration(1) process_default_quiet
      schedules_advance_every_step [of hardcoded 100 "to_pixel_values example_images"
        "quiet_env (1 / 10)" 0 start_state "after_backprop True start_state"
        default_inputs quiet_run "final_state (process default_inputs quiet_run)" 300]
    by simp
qed

subsection \<open>The step budget\<close>

lemma train_step_not_AssertionError:
  "train_step S c pv env step st \<noteq> Raised AssertionError s"
proof
  assume "train_step S c pv env step st = Raised AssertionError s"
  then have "forward S env pv (mask_spatial_lora (mask_draw env)
             (mask_temporal_lora (train_temporal_lora S)))
             (mask_temporal_lora (train_temporal_lora S)) = Inl AssertionError"
    using train_step_error by fastforce
  then show False
    using forward_error by fastforce
qed

lemma epoch_loop_not_AssertionError:
  "epoch_loop S m c pv E epochs st \<noteq> Raised AssertionError s"
proof (induction epochs arbitrary: st)
  case Nil
  show ?case by simp
next
  case (Cons x xs)
  show ?case
  proof (cases "train_step S c pv (E (nat (global_step st))) 0 st")
    case (Normal s1)
    then show ?thesis using Cons.IH [of s1] by (simp add: epoch_loop_Cons del: epoch_loop.simps)
  next
    case (Raised e s1)
    then have "e \<noteq> AssertionError"
      using train_step_not_AssertionError by blast
    then show ?thesis using Raised by (simp add: epoch_loop_Cons del: epoch_loop.simps)
  qed
qed

lemma process_with_AssertionError:
  "(\<exists>s. process_with S inp E = Raised AssertionError s)
     = ((max_train_steps inp = - 1 \<and> max_train_epoch inp = - 1)
        \<or> (checkpointing_steps inp = - 1 \<and> checkpointing_epochs inp = - 1))"
proof (cases "get_training_iteration (max_train_steps inp) (max_train_epoch inp)")
  case (Inl e)
  then show ?thesis
    by (auto simp add: process_with_def Let_def get_training_iteration_def split: if_splits)
next
  case m: (Inr m)
  show ?thesis
  proof (cases "get_training_iteration (checkpointing_steps inp) (checkpointing_epochs inp)")
    case (Inl e)
    then show ?thesis using m
      by (auto simp add: process_with_def Let_def get_training_iteration_def split: if_splits)
  next
    case c: (Inr c)
    have "\<not> (\<exists>s. process_with S inp E = Raised AssertionError s)"
      unfolding process_with_loop [OF m c]
      using epoch_loop_not_AssertionError [of S m c "to_pixel_values (images inp)" E "[0..<nat m]"
          "inject_loras S initial_state"]
      by (cases "epoch_loop S m c (to_pixel_values (images inp)) E [0..<nat m]
                (inject_loras S initial_state)")
         (auto split: option.splits)
    then show ?thesis
      using m c by (auto simp add: get_training_iteration_def split: if_splits)
  qed
qed

lemma process_with_neither_set:
  assumes "(max_train_steps inp = - 1 \<and> max_train_epoch inp = - 1)
        \<or> (checkpointing_steps inp = - 1 \<and> checkpointing_epochs inp = - 1)"
  shows "process_with S inp E = Raised AssertionError initial_state"
  using assms
  by (auto simp add: process_with_def Let_def get_training_iteration_def split: sum.splits)

text \<open>
  Claim C3, as amended.  The budget is resolved by a sentinel rule: \<^verbatim>\<open>max_train_steps\<close> when
  it is not -1, else \<^verbatim>\<open>max_train_epoch\<close> when that is not -1, else an assertion error; the
  checkpoint cadence is resolved the same way.  When both values of a pair are -1 the node
  raises the assertion error before an adapter is injected or a step runs, and that is the
  only case in which it raises one: two values that are both set are accepted.  A run that
  returns has performed exactly the budget's number of steps (for a budget that is not
  negative).
\<close>

theorem training_iteration_resolution:
  "get_training_iteration steps epochs =
     (if steps \<noteq> - 1 then Inr steps
      else if epochs \<noteq> - 1 then Inr epochs
      else Inl AssertionError)
   \<and> ((max_train_steps inp = - 1 \<and> max_train_epoch inp = - 1)
        \<or> (checkpointing_steps inp = - 1 \<and> checkpointing_epochs inp = - 1) \<longrightarrow>
         process_with S inp E = Raised AssertionError initial_state)
   \<and> ((\<exists>s'. process_with S inp E = Raised AssertionError s')
        = ((max_train_steps inp = - 1 \<and> max_train_epoch inp = - 1)
           \<or> (checkpointing_steps inp = - 1 \<and> checkpointing_epochs inp = - 1)))
   \<and> (process_with S inp E = Normal s
        \<and> get_training_iteration (max_train_steps inp) (max_train_epoch inp) = Inr m \<longrightarrow>
          global_step s = int (nat m) \<and> scaler_updates (trace s) = nat m)"
proof -
  have a: "get_training_iteration steps epochs =
     (if steps \<noteq> - 1 then Inr steps
      else if epochs \<noteq> - 1 then Inr epochs
      else Inl AssertionError)"
    by (simp add: get_training_iteration_def)
  show ?thesis
    using a process_with_neither_set [of inp S E] process_with_AssertionError [of S inp E]
      process_with_Normal_counts [of S inp E s m]
    by blast
qed

lemma neither_set_raises:
  "process neither_set_inputs quiet_run = Raised AssertionError initial_state"
  by (simp add: process_def process_with_def neither_set_inputs_def default_inputs_def
      get_training_iteration_def)

theorem training_iteration_resolution_witness:
  "max_train_steps neither_set_inputs = - 1 \<and> max_train_epoch neither_set_inputs = - 1
   \<and> process neither_set_inputs quiet_run = Raised AssertionError initial_state
   \<and> process default_inputs quiet_run = Normal (final_state (process default_inputs quiet_run))
   \<and> get_training_iteration (max_train_steps default_inputs) (max_train_epoch default_inputs)
       = Inr 300
   \<and> global_step (final_state (process default_inputs quiet_run)) = 300
   \<and> scaler_updates (trace (final_state (process default_inputs quiet_run))) = 300"
proof -
  have n: "max_train_steps neither_set_inputs = - 1" "max_train_epoch neither_set_inputs = - 1"
    by (simp_all add: neither_set_inputs_def default_inputs_def)
  have p: "process_with hardcoded default_inputs quiet_run
             = Normal (final_state (process default_inputs quiet_run))"
    using process_default_quiet by (simp add: process_def)
  show ?thesis
    using n p default_iteration(1) process_default_quiet
      training_iteration_resolution [of 0 0 neither_set_inputs hardcoded quiet_run
        "final_state (process default_inputs quiet_run)" 300]
      training_iteration_resolution [of 0 0 default_inputs hardcoded quiet_run
        "final_state (process default_inputs quiet_run)" 300]
    by (simp add: process_def)
qed

text \<open>
  Against claim C3 as stated: with \<^verbatim>\<open>max_train_steps = 100\<close> and \<^verbatim>\<open>max_train_epoch = 300\<close>
  both set, and both checkpoint cadences set, the node raises no configuration error; it
  trains for 100 steps and returns.
\<close>

theorem both_set_is_accepted:
  "max_train_steps both_set_inputs = 100 \<and> max_train_epoch both_set_inputs = 300
   \<and> checkpointing_steps both_set_inputs = 100 \<and> checkpointing_epochs both_set_inputs = 50
   \<and> process both_set_inputs quiet_run = Normal (final_state (process both_set_inputs quiet_run))
   \<and> global_step (final_state (process both_set_inputs quiet_run)) = 100"
proof -
  have i: "get_training_iteration (max_train_steps both_set_inputs)
             (max_train_epoch both_set_inputs) = Inr 100"
      "get_training_iteration (checkpointing_steps both_set_inputs)
             (checkpointing_epochs both_set_inputs) = Inr 100"
    by (simp_all add: both_set_inputs_def get_training_iteration_def)
  have "images both_set_inputs = example_images" by (simp add: both_set_inputs_def)
  then obtain s where s: "process both_set_inputs quiet_run = Normal s"
    using process_quiet [OF _ i _ _ quiet_run_quiet] by auto
  then have "global_step s = 100"
    using process_with_Normal_counts [of hardcoded both_set_inputs quiet_run s 100] i(1)
    by (simp add: process_def)
  then show ?thesis
    using s by (simp add: both_set_inputs_def)
qed

subsection \<open>The adapter rank\<close>

lemma process_with_prefix:
  assumes "get_training_iteration (max_train_steps inp) (max_train_epoch inp) = Inr m"
      and "get_training_iteration (checkpointing_steps inp) (checkpointing_epochs inp) = Inr c"
  shows "prefix (trace (inject_loras S initial_state))
           (trace (final_state (process_with S inp E)))"
  unfolding process_with_loop [OF assms]
  using epoch_loop_prefix [of "inject_loras S initial_state" S m c
      "to_pixel_values (images inp)" E "[0..<nat m]"]
  by (cases "epoch_loop S m c (to_pixel_values (images inp)) E [0..<nat m]
                (inject_loras S initial_state)")
     (auto split: option.splits)

lemma process_ignores_lora_rank:
  "process (inp\<lparr>lora_rank := r\<rparr>) E = process inp E"
  by (simp add: process_def process_with_def cong: sum.case_cong)

text \<open>
  Claim C8 says that both injections use the rank given by the input \<^verbatim>\<open>lora_rank\<close>.  With
  the input 64 the temporal and the spatial adapter are injected with rank 32, and the run
  is the run of the input 32: \<^verbatim>\<open>process\<close> overwrites the input with 32 before its first use.
\<close>

theorem lora_rank_input_ignored:
  "lora_rank rank64_inputs = 64
   \<and> take 2 (trace (final_state (process rank64_inputs quiet_run)))
       = [AddLora Temporal 0 32, AddLora Spatial (1 / 10) 32]
   \<and> process rank64_inputs quiet_run = process default_inputs quiet_run"
proof -
  have e: "process rank64_inputs quiet_run = process default_inputs quiet_run"
    unfolding rank64_inputs_def by (rule process_ignores_lora_rank)
  have "prefix (trace start_state) (trace (final_state (process default_inputs quiet_run)))"
    unfolding process_def start_state_def
    by (rule process_with_prefix [OF default_iteration])
  then obtain evs where "trace (final_state (process default_inputs quiet_run))
      = trace start_state @ evs"
    by (auto simp add: prefix_def)
  then have "take 2 (trace (final_state (process default_inputs quiet_run)))
       = [AddLora Temporal 0 32, AddLora Spatial (1 / 10) 32]"
    by (simp add: start_state_eq)
  then show ?thesis
    using e by (simp add: rank64_inputs_def)
qed

subsection \<open>Failures while saving\<close>



lemma second_step_sample_fails:
  "train_step hardcoded 100 (to_pixel_values example_images) (example_env (1 / 2) False True) 0
      (after_backprop False start_state)
     = Raised OSError after_failed_sample"
  unfolding example_step after_failed_sample_def
  by (simp add: start_state_eq save_checkpoint_def validation_def after_backprop_def
      scaler_update_def emit_def validation_steps_def validation_steps_tuple_def
      example_env_def)









end
